theory Spec2Isabelle
  imports Complex_Main "HOL-Library.AList"
begin

section \<open>Data model\<close>

text \<open>
  Shallow embedding of the contour-based ASL letter recogniser:
  \<^verbatim>\<open>model/finger_detection.py\<close> (class FingerDetector),
  \<^verbatim>\<open>model/asl_letter_detector.py\<close> (class ASLLetterDetector) and
  \<^verbatim>\<open>model/simple_asl_detector.py\<close> (class SimpleASLDetector).

  Conventions of the embedding.
  \<^item> Python floats are modelled as exact reals: rounding of IEEE doubles is not modelled.
    The literals of the source (0.0, 0.4, 0.5, 0.6, 0.7, 0.8) are the corresponding decimal
    fractions.
  \<^item> Pixel coordinates (numpy integers) are unbounded integers: on frames of the size
    the source works with (640 x 480), a squared coordinate difference stays far below
    the range of a 32-bit integer.
  \<^item> The width and height of a frame that has a contour are positive; the quotient by a
    width or height of zero, which numpy would evaluate to infinity, does not arise.
  \<^item> Letters are Python strings; an absent letter (Python None) is \<open>None\<close>.
  \<^item> A Python exception is a value \<open>Inl e\<close> of a sum type.
  \<^item> Leading underscores of private method names are dropped, since an Isabelle name
    starts with a letter.
\<close>

datatype py_error = ValueError | TypeError | IndexError | ZeroDivisionError

text \<open>A finger tip is the three-element list \<^verbatim>\<open>[x / width, y / height, 0.0]\<close>.\<close>

type_synonym tip = "real \<times> real \<times> real"

definition tip_x :: "tip \<Rightarrow> real" where
  "tip_x p = fst p"

definition tip_y :: "tip \<Rightarrow> real" where
  "tip_y p = fst (snd p)"

text \<open>One entry of the detection history: \<^verbatim>\<open>(detected_letter, confidence)\<close>.\<close>

type_synonym detection = "string \<times> real"

type_synonym point = "int \<times> int"

type_synonym contour = "point list"

text \<open>
  The fields that \<^verbatim>\<open>FingerDetector.__init__\<close> sets. The source gives them integer
  values and compares them with the float that \<^verbatim>\<open>cv2.contourArea\<close> returns.
\<close>

record FingerDetector =
  min_contour_area :: real
  max_contour_area :: real

definition FingerDetector_init :: FingerDetector where
  "FingerDetector_init = \<lparr> min_contour_area = 5000, max_contour_area = 50000 \<rparr>"

text \<open>
  The fields that \<^verbatim>\<open>ASLLetterDetector.__init__\<close> sets (the table
  \<^verbatim>\<open>letter_patterns\<close> is only read by the drawing code and is left out).
\<close>

record ASLLetterDetector =
  finger_detector :: FingerDetector
  min_confidence :: real
  stable_frames :: nat
  detection_history :: "detection list"
  current_letter :: "string option"
  confidence :: real

definition ASLLetterDetector_init :: ASLLetterDetector where
  "ASLLetterDetector_init =
     \<lparr> finger_detector = FingerDetector_init,
       min_confidence = 0.6,
       stable_frames = 5,
       detection_history = [],
       current_letter = None,
       confidence = 0.0 \<rparr>"

section \<open>The interface to OpenCV and numpy\<close>

text \<open>
  OpenCV and numpy are libraries, not code of this repository. Everything that
  \<^verbatim>\<open>detect_fingers\<close> asks of them is a field of the record \<open>cv2\<close>, over an abstract
  type \<open>'img\<close> of frames:
  \<^item> \<open>external_contours\<close> is the composition of \<^verbatim>\<open>cvtColor\<close> (BGR to HSV),
    \<^verbatim>\<open>inRange\<close> with the skin range [0, 20, 70] .. [20, 255, 255],
    \<^verbatim>\<open>morphologyEx\<close> (open, then close, 3 x 3 kernel) and
    \<^verbatim>\<open>findContours\<close> (RETR_EXTERNAL, CHAIN_APPROX_SIMPLE);
  \<^item> \<open>contourArea\<close>, \<open>convexHull\<close> (with returnPoints) and \<open>moments\<close> are the
    functions of these names;
  \<^item> \<open>np_shape\<close> is numpy's \<^verbatim>\<open>image.shape\<close>: (height, width, channels).
  The theorems below hold for every value of this record.
\<close>

record moments_dict =
  m00 :: real
  m10 :: real
  m01 :: real

record 'img cv2 =
  external_contours :: "'img \<Rightarrow> contour list"
  contourArea :: "contour \<Rightarrow> real"
  convexHull :: "contour \<Rightarrow> point list"
  moments :: "contour \<Rightarrow> moments_dict"
  np_shape :: "'img \<Rightarrow> nat \<times> nat \<times> nat"

definition shape0 :: "nat \<times> nat \<times> nat \<Rightarrow> nat" where
  "shape0 sh = fst sh"

definition shape1 :: "nat \<times> nat \<times> nat \<Rightarrow> nat" where
  "shape1 sh = fst (snd sh)"

text \<open>Python's \<^verbatim>\<open>int(x)\<close> on a float: truncation towards zero.\<close>

definition py_int :: "real \<Rightarrow> int" where
  "py_int x = (if x \<ge> 0 then \<lfloor>x\<rfloor> else \<lceil>x\<rceil>)"

text \<open>
  Python's \<^verbatim>\<open>max(iterable, key=f)\<close>: the first element whose key is maximal;
  ValueError on an empty iterable.
\<close>

fun max_from :: "('a \<Rightarrow> 'b::linorder) \<Rightarrow> 'a \<Rightarrow> 'a list \<Rightarrow> 'a" where
  "max_from f best [] = best"
| "max_from f best (x # xs) = max_from f (if f x > f best then x else best) xs"

definition py_max :: "('a \<Rightarrow> 'b::linorder) \<Rightarrow> 'a list \<Rightarrow> py_error + 'a" where
  "py_max f xs = (case xs of [] \<Rightarrow> Inl ValueError | x # rest \<Rightarrow> Inr (max_from f x rest))"

section \<open>Finger detection\<close>

text \<open>The test of \<^verbatim>\<open>_find_finger_tips\<close> on one hull vertex.\<close>

definition distance :: "int \<Rightarrow> int \<Rightarrow> point \<Rightarrow> real" where
  "distance center_x center_y p =
     sqrt (real_of_int ((fst p - center_x)\<^sup>2 + (snd p - center_y)\<^sup>2))"

definition is_finger_tip :: "int \<Rightarrow> int \<Rightarrow> point \<Rightarrow> bool" where
  "is_finger_tip center_x center_y p \<longleftrightarrow>
     distance center_x center_y p > 50 \<and> snd p < center_y"

definition normalized :: "nat \<times> nat \<times> nat \<Rightarrow> point \<Rightarrow> tip" where
  "normalized image_shape p =
     (real_of_int (fst p) / real (shape1 image_shape),
      real_of_int (snd p) / real (shape0 image_shape), 0.0)"

text \<open>
  The loop over the hull:
  \<^verbatim>\<open>
  for point in hull:
      x, y = point[0]
      distance = np.sqrt((x - center_x)**2 + (y - center_y)**2)
      if distance > 50 and y < center_y:
          finger_tips.append([x / image_shape[1], y / image_shape[0], 0.0])
  \<close>
\<close>

fun collect_tips :: "int \<Rightarrow> int \<Rightarrow> nat \<times> nat \<times> nat \<Rightarrow> tip list \<Rightarrow> point list \<Rightarrow> tip list" where
  "collect_tips center_x center_y image_shape finger_tips [] = finger_tips"
| "collect_tips center_x center_y image_shape finger_tips (p # hull_points) =
     collect_tips center_x center_y image_shape
       (if is_finger_tip center_x center_y p
        then finger_tips @ [normalized image_shape p] else finger_tips) hull_points"

text \<open>
  The centre of the hand, for a contour whose \<^verbatim>\<open>m00\<close> is not zero:
  \<^verbatim>\<open>
  center_x = int(moments['m10'] / moments['m00'])
  center_y = int(moments['m01'] / moments['m00'])
  \<close>
\<close>

definition center_x_of :: "moments_dict \<Rightarrow> int" where
  "center_x_of mts = py_int (m10 mts / m00 mts)"

definition center_y_of :: "moments_dict \<Rightarrow> int" where
  "center_y_of mts = py_int (m01 mts / m00 mts)"

definition find_finger_tips :: "'img cv2 \<Rightarrow> contour \<Rightarrow> nat \<times> nat \<times> nat \<Rightarrow> tip list" where
  "find_finger_tips cv cnt image_shape =
     (let hull_points = convexHull cv cnt;
          mts = moments cv cnt
      in if m00 mts = 0 then []
         else
           let center_x = center_x_of mts;
               center_y = center_y_of mts;
               finger_tips = collect_tips center_x center_y image_shape [] hull_points
           in take 5 (sort_key tip_x finger_tips))"

text \<open>
  The distance of a hull vertex from the centroid of the contour itself, the point
  (m10 / m00, m01 / m00) without truncation. The source does not compute it; it is the
  distance that the specification of the tip test names.
\<close>

definition centroid_distance :: "moments_dict \<Rightarrow> point \<Rightarrow> real" where
  "centroid_distance mts p =
     sqrt ((real_of_int (fst p) - m10 mts / m00 mts)\<^sup>2
         + (real_of_int (snd p) - m01 mts / m00 mts)\<^sup>2)"

text \<open>
  The largest contour of the frame, when there is one:
  \<^verbatim>\<open>max(contours, key=cv2.contourArea)\<close> after the test \<^verbatim>\<open>if not contours\<close>.
\<close>

definition largest_contour :: "'img cv2 \<Rightarrow> 'img \<Rightarrow> contour option" where
  "largest_contour cv img =
     (case external_contours cv img of
        [] \<Rightarrow> None
      | c # cs \<Rightarrow> Some (max_from (contourArea cv) c cs))"

text \<open>
  \<^verbatim>\<open>detect_fingers\<close>. The field \<open>max_contour_area\<close> of the detector is not read here:
  the only test on the area is \<^verbatim>\<open>area < self.min_contour_area\<close>.
\<close>

definition detect_fingers :: "'img cv2 \<Rightarrow> FingerDetector \<Rightarrow> 'img \<Rightarrow> bool \<times> tip list option" where
  "detect_fingers cv self img =
     (case largest_contour cv img of
        None \<Rightarrow> (False, None)
      | Some hand_contour \<Rightarrow>
          let area = contourArea cv hand_contour
          in if area < min_contour_area self then (False, None)
             else
               let finger_points = find_finger_tips cv hand_contour (np_shape cv img)
               in if length finger_points \<ge> 3 then (True, Some finger_points)
                  else (False, None))"

section \<open>Rule-based letter classification\<close>

definition distinguish_a_or_d :: "tip list \<Rightarrow> detection" where
  "distinguish_a_or_d finger_points =
     (case finger_points of
        [] \<Rightarrow> (''A'', 0.5)
      | p # _ \<Rightarrow> if tip_x p < 0.4 then (''A'', 0.7) else (''D'', 0.7))"

definition classify_by_finger_count :: "int \<Rightarrow> tip list \<Rightarrow> detection" where
  "classify_by_finger_count finger_count finger_points =
     (if finger_count = 0 then (''E'', 0.8)
      else if finger_count = 1 then distinguish_a_or_d finger_points
      else if finger_count = 2 then (''C'', 0.6)
      else if finger_count = 3 then (''C'', 0.7)
      else if finger_count = 4 then (''C'', 0.6)
      else if finger_count = 5 then (''B'', 0.8)
      else (''Unknown'', 0.0))"

section \<open>Temporal stabilisation\<close>

text \<open>
  The loop of \<^verbatim>\<open>_get_stable_detection\<close>:
  \<^verbatim>\<open>
  for letter, confidence in self.detection_history:
      letter_counts[letter] = letter_counts.get(letter, 0) + 1
      total_confidence += confidence
  \<close>
  The dictionary is an association list in insertion order, which is the order in which
  Python iterates over a dict.
\<close>

definition dict_get :: "(string \<times> nat) list \<Rightarrow> string \<Rightarrow> nat \<Rightarrow> nat" where
  "dict_get d k dflt = (case map_of d k of None \<Rightarrow> dflt | Some v \<Rightarrow> v)"

fun count_letters ::
  "(string \<times> nat) list \<times> real \<Rightarrow> detection list \<Rightarrow> (string \<times> nat) list \<times> real" where
  "count_letters (letter_counts, total_confidence) [] = (letter_counts, total_confidence)"
| "count_letters (letter_counts, total_confidence) ((letter, c) # rest) =
     count_letters
       (AList.update letter (dict_get letter_counts letter 0 + 1) letter_counts,
        total_confidence + c) rest"

definition get_stable_detection :: "ASLLetterDetector \<Rightarrow> py_error + (string option \<times> real)" where
  "get_stable_detection self =
     (if length (detection_history self) < stable_frames self then Inr (None, 0.0)
      else
        let (letter_counts, total_confidence) = count_letters ([], 0.0) (detection_history self)
        in case py_max (\<lambda>k. dict_get letter_counts k 0) (map fst letter_counts) of
             Inl e \<Rightarrow> Inl e
           | Inr most_common_letter \<Rightarrow>
               let most_common_count = dict_get letter_counts most_common_letter 0
               in if real most_common_count \<ge> real (stable_frames self) * 0.6
                  then (if length (detection_history self) = 0 then Inl ZeroDivisionError
                        else Inr (Some most_common_letter,
                                  total_confidence / real (length (detection_history self))))
                  else Inr (None, 0.0))"

text \<open>
  The second half of \<^verbatim>\<open>detect_asl_letter\<close>. First the per-frame result is appended to
  the history, and the oldest entry is removed when the history has grown beyond
  \<^verbatim>\<open>stable_frames\<close>:
  \<^verbatim>\<open>
  self.detection_history.append((detected_letter, confidence))
  if len(self.detection_history) > self.stable_frames:
      self.detection_history.pop(0)
  \<close>
  Then the stable detection of the new history is returned, here together with the
  updated detector.
\<close>

definition append_detection :: "ASLLetterDetector \<Rightarrow> detection \<Rightarrow> ASLLetterDetector" where
  "append_detection self d =
     (let h = detection_history self @ [d]
      in self\<lparr>detection_history := (if length h > stable_frames self then tl h else h)\<rparr>)"

definition push_detection ::
  "ASLLetterDetector \<Rightarrow> detection \<Rightarrow> py_error + ((string option \<times> real) \<times> ASLLetterDetector)" where
  "push_detection self d =
     (let self' = append_detection self d
      in case get_stable_detection self' of
           Inl e \<Rightarrow> Inl e
         | Inr res \<Rightarrow> Inr (res, self'))"

text \<open>Pushing a sequence of per-frame results, keeping the output of every push.\<close>

fun push_all ::
  "ASLLetterDetector \<Rightarrow> detection list \<Rightarrow> py_error + ((string option \<times> real) list \<times> ASLLetterDetector)" where
  "push_all self [] = Inr ([], self)"
| "push_all self (d # ds) =
     (case push_detection self d of
        Inl e \<Rightarrow> Inl e
      | Inr (out, self') \<Rightarrow>
          (case push_all self' ds of
             Inl e \<Rightarrow> Inl e
           | Inr (outs, self'') \<Rightarrow> Inr (out # outs, self'')))"

section \<open>The two detectors\<close>

text \<open>
  The first half of \<^verbatim>\<open>detect_asl_letter\<close>: the per-frame letter and confidence.
  \<^verbatim>\<open>len(finger_points)\<close> raises TypeError when \<^verbatim>\<open>finger_points\<close> is None.
\<close>

definition classify_frame :: "'img cv2 \<Rightarrow> ASLLetterDetector \<Rightarrow> 'img \<Rightarrow> py_error + detection" where
  "classify_frame cv self img =
     (let (fingers_detected, finger_points) = detect_fingers cv (finger_detector self) img
      in if \<not> fingers_detected then Inr (''E'', 0.7)
         else (case finger_points of
                 None \<Rightarrow> Inl TypeError
               | Some pts \<Rightarrow>
                   let finger_count = int (length pts)
                   in Inr (classify_by_finger_count finger_count pts)))"

definition detect_asl_letter ::
  "'img cv2 \<Rightarrow> ASLLetterDetector \<Rightarrow> 'img \<Rightarrow> py_error + ((string option \<times> real) \<times> ASLLetterDetector)" where
  "detect_asl_letter cv self img =
     (case classify_frame cv self img of
        Inl e \<Rightarrow> Inl e
      | Inr d \<Rightarrow> push_detection self d)"

text \<open>Calling \<^verbatim>\<open>detect_asl_letter\<close> on a sequence of frames, one after the other.\<close>

fun detect_all ::
  "'img cv2 \<Rightarrow> ASLLetterDetector \<Rightarrow> 'img list \<Rightarrow> py_error + ((string option \<times> real) list \<times> ASLLetterDetector)" where
  "detect_all cv self [] = Inr ([], self)"
| "detect_all cv self (img # imgs) =
     (case detect_asl_letter cv self img of
        Inl e \<Rightarrow> Inl e
      | Inr (out, self') \<Rightarrow>
          (case detect_all cv self' imgs of
             Inl e \<Rightarrow> Inl e
           | Inr (outs, self'') \<Rightarrow> Inr (out # outs, self'')))"

text \<open>Python's \<^verbatim>\<open>str\<close> of a non-negative integer, for the description of the last rule.\<close>

fun str_nat :: "nat \<Rightarrow> string" where
  "str_nat n =
     (if n < 10 then [char_of (48 + n)]
      else str_nat (n div 10) @ [char_of (48 + n mod 10)])"

text \<open>
  \<^verbatim>\<open>SimpleASLDetector.detect_letter\<close> returns (letter, confidence, description). Its
  rules, applied to the result of \<^verbatim>\<open>detect_fingers\<close>, are \<open>detect_letter_of\<close>.
\<close>

definition detect_letter_of :: "bool \<times> tip list option \<Rightarrow> py_error + (string \<times> real \<times> string)" where
  "detect_letter_of r =
     (let (fingers_detected, finger_points) = r
      in if \<not> fingers_detected then Inr (''E'', 0.8, ''Fist (no fingers)'')
         else (case finger_points of
                 None \<Rightarrow> Inl TypeError
               | Some pts \<Rightarrow>
                   let finger_count = length pts
                   in if finger_count = 1 then
                        (case pts of
                           [] \<Rightarrow> Inl IndexError
                         | p # _ \<Rightarrow>
                             if tip_x p < 0.4 then Inr (''A'', 0.7, ''Thumb out'')
                             else Inr (''D'', 0.7, ''Index finger up''))
                      else if finger_count = 2 then Inr (''C'', 0.6, ''Curved hand (2 fingers)'')
                      else if finger_count = 3 then Inr (''C'', 0.7, ''Curved hand (3 fingers)'')
                      else if finger_count = 4 then Inr (''C'', 0.6, ''Curved hand (4 fingers)'')
                      else if finger_count = 5 then Inr (''B'', 0.8, ''Open hand (5 fingers)'')
                      else Inr (''Unknown'', 0.0,
                                ''Detected '' @ str_nat finger_count @ '' fingers'')))"

definition detect_letter :: "'img cv2 \<Rightarrow> FingerDetector \<Rightarrow> 'img \<Rightarrow> py_error + (string \<times> real \<times> string)" where
  "detect_letter cv fd img = detect_letter_of (detect_fingers cv fd img)"

section \<open>The area test of the second contour detector\<close>

text \<open>
  \<^verbatim>\<open>ImprovedHandDetector.detect_hands\<close> (model/improved_hand_detection.py) segments the
  frame with a 5 x 5 kernel, so its contours are a parameter of their own, \<open>contours_of\<close>.
  What the method does up to and after its call of
  \<^verbatim>\<open>_extract_finger_landmarks\<close> is modelled; the landmark extraction itself is the
  parameter \<open>extract_finger_landmarks\<close>, since only the test on the area is of interest
  here. The fields of this class carry the prefix \<open>ih\<close>.
\<close>

record ImprovedHandDetector =
  ih_min_contour_area :: real
  ih_max_contour_area :: real

definition ImprovedHandDetector_init :: ImprovedHandDetector where
  "ImprovedHandDetector_init = \<lparr> ih_min_contour_area = 10000, ih_max_contour_area = 100000 \<rparr>"

definition detect_hands ::
  "'img cv2 \<Rightarrow> ('img \<Rightarrow> contour list) \<Rightarrow> (contour \<Rightarrow> nat \<times> nat \<times> nat \<Rightarrow> tip list option) \<Rightarrow>
   ImprovedHandDetector \<Rightarrow> 'img \<Rightarrow> bool \<times> tip list option" where
  "detect_hands cv contours_of extract_finger_landmarks self img =
     (case contours_of img of
        [] \<Rightarrow> (False, None)
      | c # cs \<Rightarrow>
          let largest = max_from (contourArea cv) c cs;
              area = contourArea cv largest
          in if area < ih_min_contour_area self \<or> area > ih_max_contour_area self
             then (False, None)
             else
               (case extract_finger_landmarks largest (np_shape cv img) of
                  None \<Rightarrow> (False, None)
                | Some landmarks \<Rightarrow>
                    if landmarks \<noteq> [] \<and> length landmarks \<ge> 5 then (True, Some landmarks)
                    else (False, None)))"

section \<open>Concrete frames\<close>

text \<open>
  Frames of 640 x 480 pixels on which the skin mask is a single polygon: OpenCV's answers
  on such a frame are the polygon itself as the only external contour and as its own
  convex hull, and the area and the first moments of the polygon. A black frame has no
  contour at all.
\<close>

definition polygon_frame :: "contour \<Rightarrow> moments_dict \<Rightarrow> unit cv2" where
  "polygon_frame c mts =
     \<lparr> external_contours = (\<lambda>_. [c]),
       contourArea = (\<lambda>_. m00 mts),
       convexHull = (\<lambda>k. k),
       moments = (\<lambda>_. mts),
       np_shape = (\<lambda>_. (480, 640, 3)) \<rparr>"

definition black_frame :: "unit cv2" where
  "black_frame =
     \<lparr> external_contours = (\<lambda>_. []),
       contourArea = (\<lambda>_. 0),
       convexHull = (\<lambda>k. k),
       moments = (\<lambda>_. \<lparr> m00 = 0, m10 = 0, m01 = 0 \<rparr>),
       np_shape = (\<lambda>_. (480, 640, 3)) \<rparr>"

text \<open>An open hand close to the camera: area 79500, centre (320, 265), five tips.\<close>

definition big_hand :: "unit cv2" where
  "big_hand =
     polygon_frame
       [(170, 200), (245, 120), (320, 100), (395, 120), (470, 200), (470, 400), (170, 400)]
       \<lparr> m00 = 79500, m10 = 25440000, m01 = 21130000 \<rparr>"

text \<open>An open hand at working distance: area 36000, centre (320, 288), five tips.\<close>

definition open_hand :: "unit cv2" where
  "open_hand =
     polygon_frame
       [(220, 250), (270, 190), (320, 170), (370, 190), (420, 250), (420, 380), (220, 380)]
       \<lparr> m00 = 36000, m10 = 11520000, m01 = 31150000 / 3 \<rparr>"

text \<open>A blob with two vertices above its centre (320, 286): area 27800, two tips.\<close>

definition two_tips :: "unit cv2" where
  "two_tips =
     polygon_frame
       [(300, 150), (340, 150), (400, 300), (400, 380), (240, 380), (240, 300)]
       \<lparr> m00 = 27800, m10 = 8896000, m01 = 7952000 \<rparr>"

text \<open>A speck of area 1.\<close>

definition speck :: "unit cv2" where
  "speck =
     polygon_frame [(10, 10), (11, 10), (11, 11), (10, 11)]
       \<lparr> m00 = 1, m10 = 21 / 2, m01 = 21 / 2 \<rparr>"

text \<open>
  A hexagon of area 6016 whose centroid is (233.5, 146.07...), so that the centre of the
  hand is (233, 146).
\<close>

definition hexagon :: "unit cv2" where
  "hexagon =
     polygon_frame
       [(209, 100), (258, 100), (267, 109), (267, 191), (200, 191), (200, 109)]
       \<lparr> m00 = 6016, m10 = 1404736, m01 = 1757541 / 2 \<rparr>"

section \<open>The tip test without the square root\<close>

lemma distance_gt_50_iff:
  "distance center_x center_y p > 50 \<longleftrightarrow> (fst p - center_x)\<^sup>2 + (snd p - center_y)\<^sup>2 > 2500"
proof -
  have "(50::real) = sqrt 2500"
    by (rule sym, rule real_sqrt_unique) simp_all
  then have "distance center_x center_y p > 50 \<longleftrightarrow>
      sqrt (real_of_int ((fst p - center_x)\<^sup>2 + (snd p - center_y)\<^sup>2)) > sqrt 2500"
    by (simp add: distance_def)
  also have "\<dots> \<longleftrightarrow> real_of_int ((fst p - center_x)\<^sup>2 + (snd p - center_y)\<^sup>2) > 2500"
    by (simp only: real_sqrt_less_iff)
  also have "\<dots> \<longleftrightarrow> (fst p - center_x)\<^sup>2 + (snd p - center_y)\<^sup>2 > 2500"
    by linarith
  finally show ?thesis .
qed

lemma is_finger_tip_code [code]:
  "is_finger_tip center_x center_y p \<longleftrightarrow>
     (fst p - center_x)\<^sup>2 + (snd p - center_y)\<^sup>2 > 2500 \<and> snd p < center_y"
  by (simp add: is_finger_tip_def distance_gt_50_iff)

section \<open>Properties of the stability window\<close>

lemma init_fields [simp]:
  "stable_frames ASLLetterDetector_init = 5"
  "detection_history ASLLetterDetector_init = []"
  "finger_detector ASLLetterDetector_init = FingerDetector_init"
  by (simp_all add: ASLLetterDetector_init_def)

lemma dict_get_update:
  "dict_get (AList.update k v d) l dflt = (if l = k then v else dict_get d l dflt)"
  by (simp add: dict_get_def AList.update_conv')

lemma fst_count_letters:
  "dict_get (fst (count_letters (d, t) h)) l 0 = dict_get d l 0 + count_list (map fst h) l"
  by (induction h arbitrary: d t) (auto simp: dict_get_update)

lemma snd_count_letters:
  "snd (count_letters (d, t) h) = t + sum_list (map snd h)"
  by (induction h arbitrary: d t) auto

lemma keys_count_letters:
  "fst ` set (fst (count_letters (d, t) h)) = fst ` set d \<union> fst ` set h"
proof (induction h arbitrary: d t)
  case Nil
  then show ?case by simp
next
  case (Cons a h)
  obtain l c where a: "a = (l, c)" by (cases a)
  show ?case
    unfolding a by (simp add: Cons.IH AList.dom_update)
qed

lemma max_from_mem: "max_from f b xs \<in> set (b # xs)"
  by (induction xs arbitrary: b) auto

lemma max_from_ge: "x \<in> set (b # xs) \<Longrightarrow> f x \<le> f (max_from f b xs)"
proof (induction xs arbitrary: b x)
  case Nil
  then show ?case by simp
next
  case (Cons a xs)
  have mono: "f c \<le> f (max_from f c xs)" for c
    using Cons.IH [of c c] by simp
  show ?case
  proof (cases "x \<in> set xs")
    case True
    then show ?thesis using Cons.IH by simp
  next
    case False
    with Cons.prems have "x = b \<or> x = a" by auto
    then show ?thesis
      using mono [of a] mono [of b] by (auto simp: not_less intro: order_trans)
  qed
qed

lemma count_list_two:
  "l \<noteq> l' \<Longrightarrow> count_list xs l + count_list xs l' \<le> length xs"
  by (induction xs) auto

lemma count_letters_result:
  assumes "count_letters ([], 0) h = (d, t)"
  shows "dict_get d l 0 = count_list (map fst h) l"
    and "t = sum_list (map snd h)"
    and "fst ` set d = fst ` set h"
proof -
  show "dict_get d l 0 = count_list (map fst h) l"
    using fst_count_letters [of "[]" 0 h l] assms by (simp add: dict_get_def)
  show "t = sum_list (map snd h)"
    using snd_count_letters [of "[]" 0 h] assms by simp
  show "fst ` set d = fst ` set h"
    using keys_count_letters [of "[]" 0 h] assms by simp
qed

lemma py_max_Inr:
  assumes "xs \<noteq> []"
  obtains m where "py_max f xs = Inr m" "m \<in> set xs" "\<And>x. x \<in> set xs \<Longrightarrow> f x \<le> f m"
proof (cases xs)
  case Nil
  with assms show ?thesis by simp
next
  case (Cons b rest)
  show ?thesis
  proof (rule that [of "max_from f b rest"])
    show "py_max f xs = Inr (max_from f b rest)" by (simp add: py_max_def Cons)
    show "max_from f b rest \<in> set xs" using max_from_mem [of f b rest] Cons by simp
    show "f x \<le> f (max_from f b rest)" if "x \<in> set xs" for x
      using max_from_ge [of x b rest f] that Cons by simp
  qed
qed

lemma get_stable_detection_short:
  "length (detection_history s) < stable_frames s \<Longrightarrow> get_stable_detection s = Inr (None, 0)"
  by (simp add: get_stable_detection_def)

lemma get_stable_detection_full:
  assumes sf: "stable_frames s = 5" and len: "length (detection_history s) = 5"
  shows "3 \<le> count_list (map fst (detection_history s)) l \<Longrightarrow>
           get_stable_detection s = Inr (Some l, sum_list (map snd (detection_history s)) / 5)"
    and "(\<And>k. count_list (map fst (detection_history s)) k < 3) \<Longrightarrow>
           get_stable_detection s = Inr (None, 0)"
proof -
  define h where "h = detection_history s"
  obtain d t where dt: "count_letters ([], 0) h = (d, t)" by (cases "count_letters ([], 0) h")
  note cnt = count_letters_result(1) [OF dt] and tot = count_letters_result(2) [OF dt]
    and keys = count_letters_result(3) [OF dt]
  have "h \<noteq> []" using len by (auto simp: h_def)
  then have "map fst d \<noteq> []" using keys by auto
  then obtain m where m: "py_max (\<lambda>k. dict_get d k 0) (map fst d) = Inr m"
    and m_in: "m \<in> set (map fst d)"
    and m_max: "\<And>x. x \<in> set (map fst d) \<Longrightarrow> dict_get d x 0 \<le> dict_get d m 0"
    by (rule py_max_Inr [of "map fst d" "\<lambda>k. dict_get d k 0"]) blast
  have unfold: "get_stable_detection s =
      (if real (count_list (map fst h) m) \<ge> 5 * 0.6 then Inr (Some m, t / 5) else Inr (None, 0))"
    using sf len dt m by (simp add: get_stable_detection_def h_def [symmetric] cnt)
  have thr: "real n \<ge> 5 * 0.6 \<longleftrightarrow> 3 \<le> n" for n :: nat
    by auto
  {
    assume l: "3 \<le> count_list (map fst h) l"
    then have "l \<in> set (map fst h)" by (metis count_list_0_iff not_numeral_le_zero)
    then have "l \<in> set (map fst d)" using keys by simp
    from m_max [OF this] have ge: "3 \<le> count_list (map fst h) m" using l by (simp add: cnt)
    have "m = l"
    proof (rule ccontr)
      assume "m \<noteq> l"
      from count_list_two [OF this, of "map fst h"] ge l len show False by (simp add: h_def)
    qed
    then show "get_stable_detection s = Inr (Some l, sum_list (map snd (detection_history s)) / 5)"
      using unfold ge tot by (simp only: thr h_def) simp
  }
  {
    assume "\<And>k. count_list (map fst (detection_history s)) k < 3"
    then have "\<not> 3 \<le> count_list (map fst h) m" by (simp add: h_def not_le)
    then show "get_stable_detection s = Inr (None, 0)"
      using unfold by (simp only: thr) simp
  }
qed

lemma get_stable_detection_total:
  assumes "stable_frames s = 5"
  shows "\<exists>out. get_stable_detection s = Inr out"
proof (cases "length (detection_history s) < 5")
  case True
  then show ?thesis using assms by (simp add: get_stable_detection_def)
next
  case False
  define h where "h = detection_history s"
  obtain d t where dt: "count_letters ([], 0) h = (d, t)" by (cases "count_letters ([], 0) h")
  have "h \<noteq> []" using False by (auto simp: h_def)
  then have "map fst d \<noteq> []" using count_letters_result(3) [OF dt] by auto
  then obtain m where m: "py_max (\<lambda>k. dict_get d k 0) (map fst d) = Inr m"
    by (rule py_max_Inr [of "map fst d" "\<lambda>k. dict_get d k 0"]) blast
  show ?thesis
    using assms False dt m \<open>h \<noteq> []\<close>
    by (simp add: get_stable_detection_def h_def [symmetric])
qed

lemma trailing_trailing:
  "drop (length (drop (length xs - 5) xs @ ys) - 5) (drop (length xs - 5) xs @ ys)
     = drop (length (xs @ ys) - 5) (xs @ ys)"
proof (cases "length xs \<le> 5")
  case True
  then show ?thesis by simp
next
  case False
  then have a: "length xs - (length xs - 5) = 5" by arith
  have b: "length ys + (length xs - 5) = length xs + length ys - 5" using False by arith
  have c: "length xs + length ys - 5 - length xs = length ys - 5" by arith
  show ?thesis by (simp add: a b c)
qed

lemma append_detection_fields [simp]:
  "stable_frames (append_detection s d) = stable_frames s"
  "finger_detector (append_detection s d) = finger_detector s"
  by (simp_all add: append_detection_def Let_def)

lemma append_detection_window:
  assumes "stable_frames s = 5" and "length (detection_history s) \<le> 5"
  shows "detection_history (append_detection s d) =
           drop (length (detection_history s @ [d]) - 5) (detection_history s @ [d])"
proof (cases "length (detection_history s) = 5")
  case True
  then have "length (detection_history s @ [d]) - 5 = Suc 0" and "detection_history s \<noteq> []"
    by auto
  then show ?thesis using True assms by (simp add: append_detection_def drop_Suc)
next
  case False
  with assms show ?thesis by (simp add: append_detection_def)
qed

lemma push_detection_step:
  assumes "stable_frames s = 5"
  shows "\<exists>out. push_detection s d = Inr (out, append_detection s d)
           \<and> get_stable_detection (append_detection s d) = Inr out"
proof -
  have "stable_frames (append_detection s d) = 5" using assms by simp
  from get_stable_detection_total [OF this]
  obtain out where "get_stable_detection (append_detection s d) = Inr out" ..
  then show ?thesis by (simp add: push_detection_def Let_def)
qed

lemma push_all_window:
  assumes "stable_frames s = 5" and "length (detection_history s) \<le> 5"
  shows "\<exists>outs s'. push_all s ds = Inr (outs, s')
           \<and> length outs = length ds
           \<and> stable_frames s' = 5
           \<and> finger_detector s' = finger_detector s
           \<and> detection_history s' =
               drop (length (detection_history s @ ds) - 5) (detection_history s @ ds)
           \<and> (ds \<noteq> [] \<longrightarrow> get_stable_detection s' = Inr (last outs))"
  using assms
proof (induction ds arbitrary: s)
  case Nil
  then show ?case by simp
next
  case (Cons d ds)
  let ?s1 = "append_detection s d"
  from push_detection_step [OF Cons.prems(1), of d]
  obtain out where step: "push_detection s d = Inr (out, ?s1)"
    and out: "get_stable_detection ?s1 = Inr out" by blast
  have w1: "detection_history ?s1 = drop (length (detection_history s @ [d]) - 5) (detection_history s @ [d])"
    by (rule append_detection_window [OF Cons.prems])
  have sf1: "stable_frames ?s1 = 5" using Cons.prems by simp
  have len1: "length (detection_history ?s1) \<le> 5" unfolding w1 by simp
  from Cons.IH [OF sf1 len1]
  obtain outs s' where rest: "push_all ?s1 ds = Inr (outs, s')"
    and l: "length outs = length ds" and sf: "stable_frames s' = 5"
    and fd: "finger_detector s' = finger_detector s"
    and w: "detection_history s' =
               drop (length (detection_history ?s1 @ ds) - 5) (detection_history ?s1 @ ds)"
    and lst: "ds \<noteq> [] \<longrightarrow> get_stable_detection s' = Inr (last outs)" by auto
  have w': "detection_history s' =
      drop (length (detection_history s @ d # ds) - 5) (detection_history s @ d # ds)"
    unfolding w w1 trailing_trailing by simp
  have "push_all s (d # ds) = Inr (out # outs, s')" using step rest by simp
  moreover have "get_stable_detection s' = Inr (last (out # outs))"
  proof (cases ds)
    case Nil
    then show ?thesis using rest out l by simp
  next
    case (Cons a list)
    then show ?thesis using lst l by auto
  qed
  ultimately show ?case using l sf fd w' by simp
qed

text \<open>
  Claim C1. Per-frame results are pushed one after the other into a fresh detector. After
  every push the history is the trailing window of at most 5 results. While it holds fewer
  than 5 results, the push returns (None, 0.0). Once it holds 5, a letter that occurs at
  least 3 times in the window is returned, with the mean of all 5 confidences of the
  window; when no letter occurs 3 times, the push returns (None, 0.0). No push raises.
\<close>

theorem stability_filter_push:
  "\<exists>outs s'. push_all ASLLetterDetector_init (rs @ [r]) = Inr (outs, s')
     \<and> length outs = length (rs @ [r])
     \<and> detection_history s' = drop (length (rs @ [r]) - 5) (rs @ [r])
     \<and> (length (rs @ [r]) < 5 \<longrightarrow> last outs = (None, 0))
     \<and> (5 \<le> length (rs @ [r]) \<longrightarrow>
          (\<forall>l. 3 \<le> count_list (map fst (detection_history s')) l \<longrightarrow>
               last outs = (Some l, sum_list (map snd (detection_history s')) / 5))
        \<and> ((\<forall>l. count_list (map fst (detection_history s')) l < 3) \<longrightarrow> last outs = (None, 0)))"
proof -
  from push_all_window [of ASLLetterDetector_init "rs @ [r]"]
  obtain outs s' where run: "push_all ASLLetterDetector_init (rs @ [r]) = Inr (outs, s')"
    and len: "length outs = length (rs @ [r])"
    and sf: "stable_frames s' = 5"
    and w: "detection_history s' = drop (length (rs @ [r]) - 5) (rs @ [r])"
    and out: "get_stable_detection s' = Inr (last outs)"
    by auto
  have short: "last outs = (None, 0)" if "length (rs @ [r]) < 5"
  proof -
    have "length (detection_history s') < stable_frames s'" using that w sf by simp
    from get_stable_detection_short [OF this] out show ?thesis by simp
  qed
  have full: "length (detection_history s') = 5" if "5 \<le> length (rs @ [r])"
    using that w by simp
  have hit: "last outs = (Some l, sum_list (map snd (detection_history s')) / 5)"
    if "5 \<le> length (rs @ [r])" and "3 \<le> count_list (map fst (detection_history s')) l" for l
    using get_stable_detection_full(1) [OF sf full [OF that(1)] that(2)] out by simp
  have miss: "last outs = (None, 0)"
    if "5 \<le> length (rs @ [r])" and "\<forall>l. count_list (map fst (detection_history s')) l < 3"
    using get_stable_detection_full(2) [OF sf full [OF that(1)]] that(2) out by simp
  show ?thesis
    using run len w short hit miss by blast
qed

theorem stability_filter_push_witness:
  "(\<exists>outs s'. push_all ASLLetterDetector_init
        [(''E'', 0.7), (''C'', 0.6), (''B'', 0.8), (''C'', 0.7), (''B'', 0.8), (''C'', 0.6)] = Inr (outs, s')
      \<and> last outs = (Some ''C'', 0.7))
   \<and> (\<exists>outs s'. push_all ASLLetterDetector_init
        [(''C'', 0.6), (''C'', 0.7), (''B'', 0.8), (''B'', 0.8), (''E'', 0.7)] = Inr (outs, s')
      \<and> last outs = (None, 0))
   \<and> (\<exists>outs s'. push_all ASLLetterDetector_init
        [(''B'', 0.8), (''B'', 0.8), (''B'', 0.8), (''B'', 0.8)] = Inr (outs, s')
      \<and> last outs = (None, 0))"
proof (intro conjI)
  from stability_filter_push
    [of "[(''E'', 0.7), (''C'', 0.6), (''B'', 0.8), (''C'', 0.7), (''B'', 0.8)]" "(''C'', 0.6)"]
  obtain outs s' where run: "push_all ASLLetterDetector_init
        [(''E'', 0.7), (''C'', 0.6), (''B'', 0.8), (''C'', 0.7), (''B'', 0.8), (''C'', 0.6)] = Inr (outs, s')"
    and w: "detection_history s' = [(''C'', 0.6), (''B'', 0.8), (''C'', 0.7), (''B'', 0.8), (''C'', 0.6)]"
    and hit: "\<And>l. 3 \<le> count_list (map fst (detection_history s')) l \<Longrightarrow>
               last outs = (Some l, sum_list (map snd (detection_history s')) / 5)"
    by auto
  have "last outs = (Some ''C'', 0.7)"
    using hit [of "''C''"] by (simp add: w)
  with run show "\<exists>outs s'. push_all ASLLetterDetector_init
        [(''E'', 0.7), (''C'', 0.6), (''B'', 0.8), (''C'', 0.7), (''B'', 0.8), (''C'', 0.6)] = Inr (outs, s')
      \<and> last outs = (Some ''C'', 0.7)"
    by blast
next
  from stability_filter_push
    [of "[(''C'', 0.6), (''C'', 0.7), (''B'', 0.8), (''B'', 0.8)]" "(''E'', 0.7)"]
  obtain outs s' where run: "push_all ASLLetterDetector_init
        [(''C'', 0.6), (''C'', 0.7), (''B'', 0.8), (''B'', 0.8), (''E'', 0.7)] = Inr (outs, s')"
    and w: "detection_history s' = [(''C'', 0.6), (''C'', 0.7), (''B'', 0.8), (''B'', 0.8), (''E'', 0.7)]"
    and miss: "(\<forall>l. count_list (map fst (detection_history s')) l < 3) \<longrightarrow> last outs = (None, 0)"
    by auto
  have "count_list [''C'', ''C'', ''B'', ''B'', ''E''] l < 3" for l
    by auto
  then have "last outs = (None, 0)"
    using miss by (simp only: w list.map fst_conv) blast
  with run show "\<exists>outs s'. push_all ASLLetterDetector_init
        [(''C'', 0.6), (''C'', 0.7), (''B'', 0.8), (''B'', 0.8), (''E'', 0.7)] = Inr (outs, s')
      \<and> last outs = (None, 0)"
    by blast
next
  from stability_filter_push
    [of "[(''B'', 0.8), (''B'', 0.8), (''B'', 0.8)]" "(''B'', 0.8)"]
  show "\<exists>outs s'. push_all ASLLetterDetector_init
        [(''B'', 0.8), (''B'', 0.8), (''B'', 0.8), (''B'', 0.8)] = Inr (outs, s')
      \<and> last outs = (None, 0)"
    by auto
qed

text \<open>
  Claim C8. Pushing the same per-frame result (l, c) five times into a fresh detector
  returns (None, 0.0) four times and then (l, c): the letter of the result and its own
  confidence, the mean of five equal values.
\<close>

theorem monotonic_windowing:
  "push_all ASLLetterDetector_init [(l, c), (l, c), (l, c), (l, c), (l, c)] =
     Inr ([(None, 0), (None, 0), (None, 0), (None, 0), (Some l, c)],
          ASLLetterDetector_init\<lparr>detection_history := [(l, c), (l, c), (l, c), (l, c), (l, c)]\<rparr>)"
  by (simp add: push_detection_def append_detection_def get_stable_detection_def
      ASLLetterDetector_init_def dict_get_def py_max_def Let_def)

section \<open>Properties of finger detection and classification\<close>

lemma collect_tips_eq:
  "collect_tips cx cy sh acc hp = acc @ map (normalized sh) (filter (is_finger_tip cx cy) hp)"
  by (induction hp arbitrary: acc) auto

lemma find_finger_tips_eq:
  "find_finger_tips cv c sh =
     (if m00 (moments cv c) = 0 then []
      else take 5 (sort_key tip_x (map (normalized sh)
             (filter (is_finger_tip (center_x_of (moments cv c)) (center_y_of (moments cv c)))
                (convexHull cv c)))))"
  by (simp add: find_finger_tips_def collect_tips_eq Let_def)

lemma find_finger_tips_length: "length (find_finger_tips cv c sh) \<le> 5"
  by (simp add: find_finger_tips_eq)

lemma detect_fingers_cases:
  "detect_fingers cv fd img = (False, None) \<or>
   (\<exists>c. largest_contour cv img = Some c
        \<and> \<not> contourArea cv c < min_contour_area fd
        \<and> 3 \<le> length (find_finger_tips cv c (np_shape cv img))
        \<and> detect_fingers cv fd img = (True, Some (find_finger_tips cv c (np_shape cv img))))"
  by (auto simp: detect_fingers_def Let_def split: option.splits)

lemma detect_fingers_rejects:
  assumes "largest_contour cv img = Some c"
    and "contourArea cv c < min_contour_area fd \<or> length (find_finger_tips cv c (np_shape cv img)) < 3"
  shows "detect_fingers cv fd img = (False, None)"
  using assms by (auto simp: detect_fingers_def Let_def)

lemma detect_fingers_no_contour:
  "largest_contour cv img = None \<Longrightarrow> detect_fingers cv fd img = (False, None)"
  by (simp add: detect_fingers_def)

lemma classify_frame_no_fingers:
  "detect_fingers cv (finger_detector s) img = (False, None) \<Longrightarrow> classify_frame cv s img = Inr (''E'', 0.7)"
  by (simp add: classify_frame_def)

lemma classify_frame_fingers:
  "detect_fingers cv (finger_detector s) img = (True, Some pts) \<Longrightarrow>
     classify_frame cv s img = Inr (classify_by_finger_count (int (length pts)) pts)"
  by (simp add: classify_frame_def)

lemma detect_letter_no_fingers:
  "detect_fingers cv fd img = (False, None) \<Longrightarrow> detect_letter cv fd img = Inr (''E'', 0.8, ''Fist (no fingers)'')"
  by (simp add: detect_letter_def detect_letter_of_def)

lemma polygon_frame_fields [simp]:
  "external_contours (polygon_frame c mts) img = [c]"
  "contourArea (polygon_frame c mts) k = m00 mts"
  "convexHull (polygon_frame c mts) k = k"
  "moments (polygon_frame c mts) k = mts"
  "np_shape (polygon_frame c mts) img = (480, 640, 3)"
  by (simp_all add: polygon_frame_def)

lemma largest_contour_polygon [simp]: "largest_contour (polygon_frame c mts) img = Some c"
  by (simp add: largest_contour_def)

lemma tips_big_hand:
  "find_finger_tips big_hand
     [(170, 200), (245, 120), (320, 100), (395, 120), (470, 200), (470, 400), (170, 400)]
     (480, 640, 3) =
   [(17 / 64, 5 / 12, 0), (49 / 128, 1 / 4, 0), (1 / 2, 5 / 24, 0),
    (79 / 128, 1 / 4, 0), (47 / 64, 5 / 12, 0)]"
  by (simp add: big_hand_def find_finger_tips_eq center_x_of_def center_y_of_def py_int_def
      is_finger_tip_code normalized_def shape0_def shape1_def tip_x_def)

lemma tips_open_hand:
  "find_finger_tips open_hand
     [(220, 250), (270, 190), (320, 170), (370, 190), (420, 250), (420, 380), (220, 380)]
     (480, 640, 3) =
   [(11 / 32, 25 / 48, 0), (27 / 64, 19 / 48, 0), (1 / 2, 17 / 48, 0),
    (37 / 64, 19 / 48, 0), (21 / 32, 25 / 48, 0)]"
  by (simp add: open_hand_def find_finger_tips_eq center_x_of_def center_y_of_def py_int_def
      is_finger_tip_code normalized_def shape0_def shape1_def tip_x_def)

lemma tips_two_tips:
  "find_finger_tips two_tips
     [(300, 150), (340, 150), (400, 300), (400, 380), (240, 380), (240, 300)]
     (480, 640, 3) =
   [(15 / 32, 5 / 16, 0), (17 / 32, 5 / 16, 0)]"
  by (simp add: two_tips_def find_finger_tips_eq center_x_of_def center_y_of_def py_int_def
      is_finger_tip_code normalized_def shape0_def shape1_def tip_x_def)

lemma tips_speck:
  "find_finger_tips speck [(10, 10), (11, 10), (11, 11), (10, 11)] (480, 640, 3) = []"
  by (simp add: speck_def find_finger_tips_eq center_x_of_def center_y_of_def py_int_def
      is_finger_tip_code)

lemma detect_fingers_big_hand:
  "detect_fingers big_hand FingerDetector_init () =
     (True, Some [(17 / 64, 5 / 12, 0), (49 / 128, 1 / 4, 0), (1 / 2, 5 / 24, 0),
                  (79 / 128, 1 / 4, 0), (47 / 64, 5 / 12, 0)])"
proof -
  have lc: "largest_contour big_hand () =
      Some [(170, 200), (245, 120), (320, 100), (395, 120), (470, 200), (470, 400), (170, 400)]"
    by (simp add: big_hand_def)
  have area: "contourArea big_hand c = 79500" for c by (simp add: big_hand_def)
  have sh: "np_shape big_hand () = (480, 640, 3)" by (simp add: big_hand_def)
  show ?thesis
    by (simp add: detect_fingers_def lc area sh tips_big_hand FingerDetector_init_def)
qed

lemma detect_fingers_open_hand:
  "detect_fingers open_hand FingerDetector_init () =
     (True, Some [(11 / 32, 25 / 48, 0), (27 / 64, 19 / 48, 0), (1 / 2, 17 / 48, 0),
                  (37 / 64, 19 / 48, 0), (21 / 32, 25 / 48, 0)])"
proof -
  have lc: "largest_contour open_hand () =
      Some [(220, 250), (270, 190), (320, 170), (370, 190), (420, 250), (420, 380), (220, 380)]"
    by (simp add: open_hand_def)
  have area: "contourArea open_hand c = 36000" for c by (simp add: open_hand_def)
  have sh: "np_shape open_hand () = (480, 640, 3)" by (simp add: open_hand_def)
  show ?thesis
    by (simp add: detect_fingers_def lc area sh tips_open_hand FingerDetector_init_def)
qed

text \<open>
  Claim C2. When the frame yields no finger tip at all (its largest contour, if there is
  one, has no qualifying hull vertex), the finger count is 0, for which the classifier
  returns E with confidence 0.8; \<^verbatim>\<open>detect_asl_letter\<close> classifies the frame as E with
  confidence 0.7 and \<^verbatim>\<open>detect_letter\<close> as E with confidence 0.8. Each confidence lies
  in the closed interval from 0.70 to 0.80.
\<close>

theorem fist_invariant:
  assumes "\<forall>c. largest_contour cv img = Some c \<longrightarrow> find_finger_tips cv c (np_shape cv img) = []"
  shows "classify_by_finger_count 0 pts = (''E'', 0.8)
     \<and> (\<exists>conf. classify_frame cv s img = Inr (''E'', conf) \<and> 0.70 \<le> conf \<and> conf \<le> 0.80)
     \<and> (\<exists>conf d. detect_letter cv fd img = Inr (''E'', conf, d) \<and> 0.70 \<le> conf \<and> conf \<le> 0.80)"
proof -
  have none: "detect_fingers cv fd' img = (False, None)" for fd'
  proof (cases "largest_contour cv img")
    case None
    then show ?thesis by (rule detect_fingers_no_contour)
  next
    case (Some c)
    with assms have "length (find_finger_tips cv c (np_shape cv img)) < 3" by simp
    with Some show ?thesis by (simp add: detect_fingers_rejects)
  qed
  have "classify_by_finger_count 0 pts = (''E'', 0.8)"
    by (simp add: classify_by_finger_count_def)
  moreover have "classify_frame cv s img = Inr (''E'', 0.7)"
    using none by (rule classify_frame_no_fingers)
  moreover have "detect_letter cv fd img = Inr (''E'', 0.8, ''Fist (no fingers)'')"
    using none by (rule detect_letter_no_fingers)
  ultimately show ?thesis
    by (intro conjI exI [of _ "0.7 :: real"] exI [of _ "0.8 :: real"]
        exI [of _ "''Fist (no fingers)''"]) simp_all
qed

theorem fist_invariant_witness:
  "largest_contour speck () = Some [(10, 10), (11, 10), (11, 11), (10, 11)]
   \<and> find_finger_tips speck [(10, 10), (11, 10), (11, 11), (10, 11)] (np_shape speck ()) = []
   \<and> (\<exists>conf. classify_frame speck ASLLetterDetector_init () = Inr (''E'', conf) \<and> 0.70 \<le> conf \<and> conf \<le> 0.80)
   \<and> (\<exists>conf d. detect_letter speck FingerDetector_init () = Inr (''E'', conf, d) \<and> 0.70 \<le> conf \<and> conf \<le> 0.80)"
proof -
  have lc: "largest_contour speck () = Some [(10, 10), (11, 10), (11, 11), (10, 11)]"
    by (simp add: speck_def)
  have sh: "np_shape speck () = (480, 640, 3)" by (simp add: speck_def)
  have h: "\<forall>c. largest_contour speck () = Some c \<longrightarrow> find_finger_tips speck c (np_shape speck ()) = []"
    by (simp add: lc sh tips_speck)
  have tips: "find_finger_tips speck [(10, 10), (11, 10), (11, 11), (10, 11)] (np_shape speck ()) = []"
    by (simp add: sh tips_speck)
  from fist_invariant [OF h, of "[]" ASLLetterDetector_init FingerDetector_init]
  have "(\<exists>conf. classify_frame speck ASLLetterDetector_init () = Inr (''E'', conf) \<and> 0.70 \<le> conf \<and> conf \<le> 0.80)
   \<and> (\<exists>conf d. detect_letter speck FingerDetector_init () = Inr (''E'', conf, d) \<and> 0.70 \<le> conf \<and> conf \<le> 0.80)"
    by (rule conjunct2)
  with lc tips show ?thesis by (intro conjI) blast+
qed

text \<open>
  Claim C3. With a finger count of 1, a first tip whose normalized x is strictly below 0.4
  is classified A with confidence 0.7, and a first tip with x at least 0.4 is classified D
  with confidence 0.7, by both detectors; x = 0.4 itself is D.
\<close>

theorem a_or_d_boundary:
  "(tip_x p < 0.4 \<longrightarrow>
      classify_by_finger_count 1 (p # ps) = (''A'', 0.7)
      \<and> detect_letter_of (True, Some [p]) = Inr (''A'', 0.7, ''Thumb out''))
   \<and> (0.4 \<le> tip_x p \<longrightarrow>
      classify_by_finger_count 1 (p # ps) = (''D'', 0.7)
      \<and> detect_letter_of (True, Some [p]) = Inr (''D'', 0.7, ''Index finger up''))"
  by (simp add: classify_by_finger_count_def distinguish_a_or_d_def detect_letter_of_def)

theorem a_or_d_boundary_witness:
  "classify_by_finger_count 1 [(0.1, 0.5, 0)] = (''A'', 0.7)
   \<and> detect_letter_of (True, Some [(0.1, 0.5, 0)]) = Inr (''A'', 0.7, ''Thumb out'')
   \<and> classify_by_finger_count 1 [(0.9, 0.5, 0)] = (''D'', 0.7)
   \<and> detect_letter_of (True, Some [(0.9, 0.5, 0)]) = Inr (''D'', 0.7, ''Index finger up'')
   \<and> classify_by_finger_count 1 [(0.4, 0.5, 0)] = (''D'', 0.7)
   \<and> detect_letter_of (True, Some [(0.4, 0.5, 0)]) = Inr (''D'', 0.7, ''Index finger up'')"
  using a_or_d_boundary [of "(0.1, 0.5, 0)" "[]"] a_or_d_boundary [of "(0.9, 0.5, 0)" "[]"]
    a_or_d_boundary [of "(0.4, 0.5, 0)" "[]"]
  by (simp add: tip_x_def)

text \<open>
  Claim C6. For every finger count and every tip list, the confidence of the per-frame
  classification lies between 0 and 0.85, hence in [0, 1]: for the rule table of
  \<^verbatim>\<open>_classify_by_finger_count\<close>, for the per-frame result of
  \<^verbatim>\<open>detect_asl_letter\<close> and for the rules of \<^verbatim>\<open>detect_letter\<close>.
\<close>

theorem confidence_cap:
  "0 \<le> snd (classify_by_finger_count n pts) \<and> snd (classify_by_finger_count n pts) \<le> 0.85
   \<and> snd (classify_by_finger_count n pts) \<le> 1
   \<and> (\<forall>l c. classify_frame cv s img = Inr (l, c) \<longrightarrow> 0 \<le> c \<and> c \<le> 0.85 \<and> c \<le> 1)
   \<and> (\<forall>l c d. detect_letter_of r = Inr (l, c, d) \<longrightarrow> 0 \<le> c \<and> c \<le> 0.85 \<and> c \<le> 1)"
proof -
  have a: "0 \<le> snd (classify_by_finger_count k qs) \<and> snd (classify_by_finger_count k qs) \<le> 0.85"
    for k qs
    by (simp add: classify_by_finger_count_def distinguish_a_or_d_def split: list.splits)
  have b: "0 \<le> c \<and> c \<le> 0.85" if "classify_frame cv s img = Inr (l, c)" for l c
  proof -
    from detect_fingers_cases [of cv "finger_detector s" img]
    consider "classify_frame cv s img = Inr (''E'', 0.7)"
      | pts where "classify_frame cv s img = Inr (classify_by_finger_count (int (length pts)) pts)"
      by (auto dest: classify_frame_no_fingers classify_frame_fingers)
    then show ?thesis
    proof cases
      case 1
      with that show ?thesis by simp
    next
      case (2 pts)
      with that have "c = snd (classify_by_finger_count (int (length pts)) pts)"
        by (metis Inr_inject snd_conv)
      with a show ?thesis by simp
    qed
  qed
  have c: "0 \<le> c \<and> c \<le> 0.85" if "detect_letter_of r = Inr (l, c, d)" for l c d
    using that
    by (cases r) (auto simp: detect_letter_of_def Let_def split: if_splits option.splits list.splits)
  have le1: "x \<le> 0.85 \<Longrightarrow> x \<le> 1" for x :: real by simp
  show ?thesis
    using a [of n pts] b c le1 by blast
qed

theorem confidence_cap_witness:
  "classify_frame open_hand ASLLetterDetector_init () = Inr (''B'', 0.8)
   \<and> (0 :: real) \<le> 0.8 \<and> (0.8 :: real) \<le> 0.85
   \<and> detect_letter_of (True, Some [(0.1, 0.5, 0)]) = Inr (''A'', 0.7, ''Thumb out'')
   \<and> (0 :: real) \<le> 0.7 \<and> (0.7 :: real) \<le> 0.85"
proof -
  have cf: "classify_frame open_hand ASLLetterDetector_init () = Inr (''B'', 0.8)"
    by (simp add: classify_frame_def ASLLetterDetector_init_def detect_fingers_open_hand
        classify_by_finger_count_def)
  have dl: "detect_letter_of (True, Some [(0.1, 0.5, 0)]) = Inr (''A'', 0.7, ''Thumb out'')"
    by (simp add: detect_letter_of_def tip_x_def)
  from confidence_cap [of 0 "[]" open_hand ASLLetterDetector_init "()" "(True, Some [(0.1, 0.5, 0)])"]
  have "(0 :: real) \<le> 0.8 \<and> (0.8 :: real) \<le> 0.85" and "(0 :: real) \<le> 0.7 \<and> (0.7 :: real) \<le> 0.85"
    using cf dl by blast+
  with cf dl show ?thesis by blast
qed

section \<open>The area band\<close>

lemma detect_fingers_below_min:
  assumes "largest_contour cv img = Some c" and "contourArea cv c < min_contour_area fd"
  shows "detect_fingers cv fd img = (False, None)"
  using assms by (simp add: detect_fingers_rejects)

lemma detect_hands_area_band:
  assumes "detect_hands cv contours_of extract self img = (True, r)"
  shows "\<exists>c cs. contours_of img = c # cs
           \<and> ih_min_contour_area self \<le> contourArea cv (max_from (contourArea cv) c cs)
           \<and> contourArea cv (max_from (contourArea cv) c cs) \<le> ih_max_contour_area self"
  using assms
  by (auto simp: detect_hands_def Let_def split: list.splits if_splits option.splits)

text \<open>
  Claim C4. The claim is that a largest contour whose area lies outside the band from
  \<^verbatim>\<open>min_contour_area\<close> to \<^verbatim>\<open>max_contour_area\<close> is rejected. Below the
  minimum it is (\<open>detect_fingers_below_min\<close>), and the second detector rejects on both sides
  (\<open>detect_hands_area_band\<close>). Above the maximum \<^verbatim>\<open>detect_fingers\<close> does not reject: on
  the frame \<open>big_hand\<close>, whose largest contour has area 79500 while
  \<^verbatim>\<open>max_contour_area\<close> is 50000, it reports five finger tips and the frame is
  classified B.
\<close>

theorem area_above_max_accepted:
  "largest_contour big_hand () =
     Some [(170, 200), (245, 120), (320, 100), (395, 120), (470, 200), (470, 400), (170, 400)]
   \<and> contourArea big_hand
       [(170, 200), (245, 120), (320, 100), (395, 120), (470, 200), (470, 400), (170, 400)] = 79500
   \<and> max_contour_area FingerDetector_init = 50000
   \<and> detect_fingers big_hand FingerDetector_init () =
       (True, Some [(17 / 64, 5 / 12, 0), (49 / 128, 1 / 4, 0), (1 / 2, 5 / 24, 0),
                    (79 / 128, 1 / 4, 0), (47 / 64, 5 / 12, 0)])
   \<and> classify_frame big_hand ASLLetterDetector_init () = Inr (''B'', 0.8)"
  by (simp add: detect_fingers_big_hand classify_frame_def ASLLetterDetector_init_def
      classify_by_finger_count_def)
    (simp add: big_hand_def FingerDetector_init_def)

lemma detect_fingers_speck: "detect_fingers speck FingerDetector_init () = (False, None)"
  by (rule detect_fingers_below_min [of _ _ "[(10, 10), (11, 10), (11, 11), (10, 11)]"])
    (simp_all add: speck_def FingerDetector_init_def)

lemma detect_fingers_two_tips: "detect_fingers two_tips FingerDetector_init () = (False, None)"
proof (rule detect_fingers_rejects)
  show "largest_contour two_tips () =
      Some [(300, 150), (340, 150), (400, 300), (400, 380), (240, 380), (240, 300)]"
    by (simp add: two_tips_def)
  have "np_shape two_tips () = (480, 640, 3)" by (simp add: two_tips_def)
  then show "contourArea two_tips [(300, 150), (340, 150), (400, 300), (400, 380), (240, 380), (240, 300)]
        < min_contour_area FingerDetector_init
      \<or> length (find_finger_tips two_tips
            [(300, 150), (340, 150), (400, 300), (400, 380), (240, 380), (240, 300)]
            (np_shape two_tips ())) < 3"
    by (simp add: tips_two_tips)
qed

text \<open>
  Claim C5, as stated, says that a frame whose contour is rejected, or which has fewer than
  three tips, has the per-frame outcome (none, 0). It has not: on the frame \<open>speck\<close>
  (area 1, below the minimum) and on the frame \<open>two_tips\<close> (two tips), finger detection
  reports nothing and both detectors classify the frame as E, with confidence 0.7 and 0.8;
  five such frames in a row make E the stable output.
\<close>

theorem no_hand_counterexample:
  "detect_fingers speck FingerDetector_init () = (False, None)
   \<and> classify_frame speck ASLLetterDetector_init () = Inr (''E'', 0.7)
   \<and> detect_letter speck FingerDetector_init () = Inr (''E'', 0.8, ''Fist (no fingers)'')
   \<and> detect_fingers two_tips FingerDetector_init () = (False, None)
   \<and> classify_frame two_tips ASLLetterDetector_init () = Inr (''E'', 0.7)
   \<and> detect_letter two_tips FingerDetector_init () = Inr (''E'', 0.8, ''Fist (no fingers)'')
   \<and> detect_all speck ASLLetterDetector_init [(), (), (), (), ()] =
       Inr ([(None, 0), (None, 0), (None, 0), (None, 0), (Some ''E'', 0.7)],
            ASLLetterDetector_init\<lparr>detection_history :=
              [(''E'', 0.7), (''E'', 0.7), (''E'', 0.7), (''E'', 0.7), (''E'', 0.7)]\<rparr>)"
proof -
  have "detect_all speck ASLLetterDetector_init [(), (), (), (), ()] =
       Inr ([(None, 0), (None, 0), (None, 0), (None, 0), (Some ''E'', 0.7)],
            ASLLetterDetector_init\<lparr>detection_history :=
              [(''E'', 0.7), (''E'', 0.7), (''E'', 0.7), (''E'', 0.7), (''E'', 0.7)]\<rparr>)"
    by (simp add: detect_asl_letter_def classify_frame_def detect_fingers_speck
        push_detection_def append_detection_def get_stable_detection_def
        ASLLetterDetector_init_def dict_get_def py_max_def Let_def)
  then show ?thesis
    by (simp add: detect_fingers_speck detect_fingers_two_tips classify_frame_no_fingers
        detect_letter_no_fingers ASLLetterDetector_init_def)
qed

text \<open>
  Claim C5, as amended. Whenever the largest contour is rejected by the minimum area or
  fewer than 3 finger tips are found, the per-frame outcome is the letter E, with
  confidence 0.7 in \<^verbatim>\<open>detect_asl_letter\<close> and 0.8 in \<^verbatim>\<open>detect_letter\<close>; it is
  an ordinary result, and no exception is raised.
\<close>

theorem no_hand_is_fist:
  assumes "largest_contour cv img = Some c"
    and "contourArea cv c < min_contour_area (finger_detector s)
         \<or> length (find_finger_tips cv c (np_shape cv img)) < 3"
  shows "classify_frame cv s img = Inr (''E'', 0.7)
     \<and> detect_letter cv (finger_detector s) img = Inr (''E'', 0.8, ''Fist (no fingers)'')"
proof -
  have "detect_fingers cv (finger_detector s) img = (False, None)"
    using assms by (rule detect_fingers_rejects)
  then show ?thesis
    by (simp add: classify_frame_no_fingers detect_letter_no_fingers)
qed

theorem no_hand_is_fist_witness:
  "classify_frame speck ASLLetterDetector_init () = Inr (''E'', 0.7)
   \<and> detect_letter speck (finger_detector ASLLetterDetector_init) () = Inr (''E'', 0.8, ''Fist (no fingers)'')
   \<and> classify_frame two_tips ASLLetterDetector_init () = Inr (''E'', 0.7)
   \<and> detect_letter two_tips (finger_detector ASLLetterDetector_init) () = Inr (''E'', 0.8, ''Fist (no fingers)'')"
proof -
  have a1: "largest_contour speck () = Some [(10, 10), (11, 10), (11, 11), (10, 11)]"
    by (simp add: speck_def)
  have a2: "contourArea speck [(10, 10), (11, 10), (11, 11), (10, 11)]
        < min_contour_area (finger_detector ASLLetterDetector_init)
      \<or> length (find_finger_tips speck [(10, 10), (11, 10), (11, 11), (10, 11)] (np_shape speck ())) < 3"
    by (simp add: speck_def ASLLetterDetector_init_def FingerDetector_init_def)
  have b1: "largest_contour two_tips () =
      Some [(300, 150), (340, 150), (400, 300), (400, 380), (240, 380), (240, 300)]"
    by (simp add: two_tips_def)
  have "np_shape two_tips () = (480, 640, 3)" by (simp add: two_tips_def)
  then have b2: "contourArea two_tips [(300, 150), (340, 150), (400, 300), (400, 380), (240, 380), (240, 300)]
        < min_contour_area (finger_detector ASLLetterDetector_init)
      \<or> length (find_finger_tips two_tips
            [(300, 150), (340, 150), (400, 300), (400, 380), (240, 380), (240, 300)]
            (np_shape two_tips ())) < 3"
    by (simp add: tips_two_tips)
  from no_hand_is_fist [OF a1 a2] no_hand_is_fist [OF b1 b2] show ?thesis by simp
qed

section \<open>The finger tips\<close>

lemma tip_x_normalized: "tip_x (normalized sh p) = real_of_int (fst p) / real (shape1 sh)"
  by (simp add: tip_x_def normalized_def)

lemma tip_y_normalized: "tip_y (normalized sh p) = real_of_int (snd p) / real (shape0 sh)"
  by (simp add: tip_y_def normalized_def)

lemma unit_interval_div:
  assumes "0 \<le> x" and "x < int w"
  shows "0 \<le> real_of_int x / real w \<and> real_of_int x / real w \<le> 1"
proof -
  have "0 < real w" using assms by linarith
  moreover have "real_of_int x \<le> real w" using assms by linarith
  moreover have "0 \<le> real_of_int x" using assms by simp
  ultimately show ?thesis by (simp add: divide_le_eq_1)
qed

lemma py_int_above:
  assumes "y < py_int r"
  shows "real_of_int y < r"
proof (cases "r \<ge> 0")
  case True
  with assms have "y + 1 \<le> \<lfloor>r\<rfloor>" by (simp add: py_int_def)
  then have "real_of_int (y + 1) \<le> real_of_int \<lfloor>r\<rfloor>" by (simp only: of_int_le_iff)
  then have "real_of_int y + 1 \<le> real_of_int \<lfloor>r\<rfloor>" by simp
  moreover have "real_of_int \<lfloor>r\<rfloor> \<le> r" by (rule of_int_floor_le)
  ultimately show ?thesis by linarith
next
  case False
  with assms have "y \<le> \<lceil>r\<rceil> - 1" by (simp add: py_int_def)
  then have "real_of_int y \<le> real_of_int (\<lceil>r\<rceil> - 1)" by (simp only: of_int_le_iff)
  then have "real_of_int y \<le> real_of_int \<lceil>r\<rceil> - 1" by simp
  moreover have "real_of_int \<lceil>r\<rceil> - 1 < r" using ceiling_correct [of r] by simp
  ultimately show ?thesis by linarith
qed

lemma tips_hexagon:
  "find_finger_tips hexagon
     [(209, 100), (258, 100), (267, 109), (267, 191), (200, 191), (200, 109)]
     (480, 640, 3) =
   [(209 / 640, 5 / 24, 0), (129 / 320, 5 / 24, 0), (267 / 640, 109 / 480, 0)]"
  by (simp add: hexagon_def find_finger_tips_eq center_x_of_def center_y_of_def py_int_def
      is_finger_tip_code normalized_def shape0_def shape1_def tip_x_def)

lemma sqrt_less_50: "0 \<le> x \<Longrightarrow> x < 2500 \<Longrightarrow> sqrt x < 50"
proof -
  assume "0 \<le> x" and "x < 2500"
  then have "sqrt x < sqrt 2500" by (simp only: real_sqrt_less_iff)
  moreover have "sqrt 2500 = (50 :: real)" by (rule real_sqrt_unique) simp_all
  ultimately show ?thesis by simp
qed

text \<open>
  Claim C7, as stated, measures the distance of a tip's hull vertex from the centroid of
  the contour. On the frame \<open>hexagon\<close> the vertex (267, 109) is returned as the third tip:
  it is more than 50 pixels away from the centre of the hand (233, 146), and less than
  50 pixels away from the centroid (233.5, 146.07...).
\<close>

theorem centroid_distance_counterexample:
  "find_finger_tips hexagon
     [(209, 100), (258, 100), (267, 109), (267, 191), (200, 191), (200, 109)]
     (480, 640, 3) =
   [(209 / 640, 5 / 24, 0), (129 / 320, 5 / 24, 0), (267 / 640, 109 / 480, 0)]
   \<and> normalized (480, 640, 3) (267, 109) = (267 / 640, 109 / 480, 0)
   \<and> moments hexagon [(209, 100), (258, 100), (267, 109), (267, 191), (200, 191), (200, 109)]
       = \<lparr> m00 = 6016, m10 = 1404736, m01 = 1757541 / 2 \<rparr>
   \<and> centroid_distance \<lparr> m00 = 6016, m10 = 1404736, m01 = 1757541 / 2 \<rparr> (267, 109) < 50
   \<and> distance 233 146 (267, 109) > 50"
proof -
  have "centroid_distance \<lparr> m00 = 6016, m10 = 1404736, m01 = 1757541 / 2 \<rparr> (267, 109) < 50"
    unfolding centroid_distance_def by (rule sqrt_less_50) (simp_all add: power2_eq_square)
  moreover have "distance 233 146 (267, 109) > 50"
    by (simp add: distance_gt_50_iff)
  moreover have "normalized (480, 640, 3) (267, 109) = (267 / 640, 109 / 480, 0)"
    by (simp add: normalized_def shape0_def shape1_def)
  moreover have "moments hexagon [(209, 100), (258, 100), (267, 109), (267, 191), (200, 191), (200, 109)]
       = \<lparr> m00 = 6016, m10 = 1404736, m01 = 1757541 / 2 \<rparr>"
    by (simp add: hexagon_def)
  ultimately show ?thesis using tips_hexagon by simp
qed

text \<open>
  Claim C7, as amended. Every tip that \<^verbatim>\<open>_find_finger_tips\<close> returns is the normalized
  image of a vertex of the convex hull of a contour with non-zero \<^verbatim>\<open>m00\<close>. The
  Euclidean distance of that vertex from the centre of the hand, which is the centroid
  (m10 / m00, m01 / m00) with both coordinates truncated to integers, strictly exceeds
  50 pixels, and the vertex lies above that centre, hence also above the centroid itself.
  The returned list is sorted by ascending x and has at most 5 elements. When the hull
  vertices are pixel positions of the frame, all coordinates of the tips lie in [0, 1].
\<close>

theorem finger_tips_postcondition:
  "length (find_finger_tips cv c sh) \<le> 5
   \<and> sorted (map tip_x (find_finger_tips cv c sh))
   \<and> (\<forall>t \<in> set (find_finger_tips cv c sh).
        m00 (moments cv c) \<noteq> 0
        \<and> (\<exists>p \<in> set (convexHull cv c).
          t = normalized sh p
          \<and> distance (py_int (m10 (moments cv c) / m00 (moments cv c)))
                      (py_int (m01 (moments cv c) / m00 (moments cv c))) p > 50
          \<and> snd p < py_int (m01 (moments cv c) / m00 (moments cv c))
          \<and> real_of_int (snd p) < m01 (moments cv c) / m00 (moments cv c)))
   \<and> ((\<forall>p \<in> set (convexHull cv c).
          0 \<le> fst p \<and> fst p < int (shape1 sh) \<and> 0 \<le> snd p \<and> snd p < int (shape0 sh)) \<longrightarrow>
       (\<forall>t \<in> set (find_finger_tips cv c sh).
          0 \<le> tip_x t \<and> tip_x t \<le> 1 \<and> 0 \<le> tip_y t \<and> tip_y t \<le> 1))"
proof -
  let ?cx = "py_int (m10 (moments cv c) / m00 (moments cv c))"
  let ?cy = "py_int (m01 (moments cv c) / m00 (moments cv c))"
  let ?cand = "map (normalized sh) (filter (is_finger_tip ?cx ?cy) (convexHull cv c))"
  have eq: "find_finger_tips cv c sh =
      (if m00 (moments cv c) = 0 then [] else take 5 (sort_key tip_x ?cand))"
    by (simp add: find_finger_tips_eq center_x_of_def center_y_of_def)
  have nz: "m00 (moments cv c) \<noteq> 0" if "t \<in> set (find_finger_tips cv c sh)" for t
    using that by (auto simp: eq split: if_splits)
  have sub: "set (find_finger_tips cv c sh) \<subseteq> set ?cand"
  proof (cases "m00 (moments cv c) = 0")
    case True
    then show ?thesis by (simp add: eq)
  next
    case False
    then have "find_finger_tips cv c sh = take 5 (sort_key tip_x ?cand)"
      by (simp add: eq)
    then show ?thesis
      using set_take_subset [of 5 "sort_key tip_x ?cand"] by simp
  qed
  have srt: "sorted (map tip_x (find_finger_tips cv c sh))"
  proof (cases "m00 (moments cv c) = 0")
    case True
    then show ?thesis by (simp add: eq)
  next
    case False
    have "sorted (take 5 (map tip_x (sort_key tip_x ?cand)))"
      by (rule sorted_wrt_take) simp
    with False show ?thesis by (simp add: eq take_map)
  qed
  have origin: "\<exists>p \<in> set (convexHull cv c).
      t = normalized sh p \<and> distance ?cx ?cy p > 50 \<and> snd p < ?cy
      \<and> real_of_int (snd p) < m01 (moments cv c) / m00 (moments cv c)"
    if "t \<in> set (find_finger_tips cv c sh)" for t
  proof -
    from that sub have "t \<in> set ?cand" by blast
    then obtain p where p: "p \<in> set (convexHull cv c)" and tp: "t = normalized sh p"
      and tip: "is_finger_tip ?cx ?cy p" by auto
    from tip have d: "distance ?cx ?cy p > 50" and y: "snd p < ?cy"
      by (simp_all add: is_finger_tip_def)
    from y have "real_of_int (snd p) < m01 (moments cv c) / m00 (moments cv c)"
      by (rule py_int_above)
    with p tp d y show ?thesis by blast
  qed
  have unit: "0 \<le> tip_x t \<and> tip_x t \<le> 1 \<and> 0 \<le> tip_y t \<and> tip_y t \<le> 1"
    if inside: "\<forall>p \<in> set (convexHull cv c).
          0 \<le> fst p \<and> fst p < int (shape1 sh) \<and> 0 \<le> snd p \<and> snd p < int (shape0 sh)"
      and t: "t \<in> set (find_finger_tips cv c sh)" for t
  proof -
    from origin [OF t] obtain p where p: "p \<in> set (convexHull cv c)" and tp: "t = normalized sh p"
      by blast
    from inside p have "0 \<le> fst p" "fst p < int (shape1 sh)" "0 \<le> snd p" "snd p < int (shape0 sh)"
      by blast+
    then show ?thesis
      unfolding tp tip_x_normalized tip_y_normalized
      using unit_interval_div by blast
  qed
  show ?thesis
    using find_finger_tips_length [of cv c sh] srt nz origin unit by blast
qed

theorem finger_tips_postcondition_witness:
  "find_finger_tips open_hand
     [(220, 250), (270, 190), (320, 170), (370, 190), (420, 250), (420, 380), (220, 380)]
     (480, 640, 3) =
   [(11 / 32, 25 / 48, 0), (27 / 64, 19 / 48, 0), (1 / 2, 17 / 48, 0),
    (37 / 64, 19 / 48, 0), (21 / 32, 25 / 48, 0)]
   \<and> sorted (map tip_x [(11 / 32, 25 / 48, 0), (27 / 64, 19 / 48, 0), (1 / 2, 17 / 48, 0),
        (37 / 64, 19 / 48, 0), (21 / 32, 25 / 48, 0 :: real)])
   \<and> 0 \<le> tip_x (11 / 32, 25 / 48, 0) \<and> tip_x (11 / 32, 25 / 48, 0) \<le> 1
   \<and> 0 \<le> tip_y (11 / 32, 25 / 48, 0) \<and> tip_y (11 / 32, 25 / 48, 0) \<le> 1
   \<and> distance 320 288 (220, 250) > 50"
proof -
  let ?c = "[(220, 250), (270, 190), (320, 170), (370, 190), (420, 250), (420, 380), (220, 380)] :: contour"
  let ?sh = "(480, 640, 3) :: nat \<times> nat \<times> nat"
  let ?tips = "[(11 / 32, 25 / 48, 0), (27 / 64, 19 / 48, 0), (1 / 2, 17 / 48, 0),
    (37 / 64, 19 / 48, 0), (21 / 32, 25 / 48, 0)] :: tip list"
  have hull: "convexHull open_hand ?c = ?c" by (simp add: open_hand_def)
  have cx: "py_int (m10 (moments open_hand ?c) / m00 (moments open_hand ?c)) = 320"
    by (simp add: open_hand_def py_int_def)
  have cy: "py_int (m01 (moments open_hand ?c) / m00 (moments open_hand ?c)) = 288"
    by (simp add: open_hand_def py_int_def)
  have inside: "\<forall>p \<in> set (convexHull open_hand ?c).
      0 \<le> fst p \<and> fst p < int (shape1 ?sh) \<and> 0 \<le> snd p \<and> snd p < int (shape0 ?sh)"
    by (simp add: hull shape0_def shape1_def)
  note post = finger_tips_postcondition [of open_hand ?c ?sh, unfolded tips_open_hand]
  from post have s: "sorted (map tip_x ?tips)" by blast
  from post inside have "\<forall>t \<in> set ?tips. 0 \<le> tip_x t \<and> tip_x t \<le> 1 \<and> 0 \<le> tip_y t \<and> tip_y t \<le> 1"
    by blast
  then have u: "0 \<le> tip_x (11 / 32, 25 / 48, 0) \<and> tip_x (11 / 32, 25 / 48, 0) \<le> 1
   \<and> 0 \<le> tip_y (11 / 32, 25 / 48, 0) \<and> tip_y (11 / 32, 25 / 48, 0) \<le> 1"
    by simp
  from post have "\<forall>t \<in> set ?tips.
        m00 (moments open_hand ?c) \<noteq> 0
        \<and> (\<exists>p \<in> set (convexHull open_hand ?c).
          t = normalized ?sh p
          \<and> distance (py_int (m10 (moments open_hand ?c) / m00 (moments open_hand ?c)))
                      (py_int (m01 (moments open_hand ?c) / m00 (moments open_hand ?c))) p > 50
          \<and> snd p < py_int (m01 (moments open_hand ?c) / m00 (moments open_hand ?c))
          \<and> real_of_int (snd p) < m01 (moments open_hand ?c) / m00 (moments open_hand ?c))"
    by (rule conjunct2 [THEN conjunct2, THEN conjunct1])
  then have "\<exists>p \<in> set (convexHull open_hand ?c).
      (11 / 32, 25 / 48, 0) = normalized ?sh p
      \<and> distance (py_int (m10 (moments open_hand ?c) / m00 (moments open_hand ?c)))
                  (py_int (m01 (moments open_hand ?c) / m00 (moments open_hand ?c))) p > 50"
    by (simp only: list.set ball_simps insert_iff) blast
  then have d: "distance 320 288 (220, 250) > 50"
    unfolding hull cx cy by (auto simp: normalized_def shape0_def shape1_def)
  from tips_open_hand s u d show ?thesis by blast
qed

section \<open>Labels reachable from an image\<close>

lemma classify_frame_cases:
  "classify_frame cv s img = Inr (''E'', 0.7) \<or>
   (\<exists>pts. 3 \<le> length pts \<and> length pts \<le> 5
        \<and> detect_fingers cv (finger_detector s) img = (True, Some pts)
        \<and> classify_frame cv s img = Inr (classify_by_finger_count (int (length pts)) pts))"
  using detect_fingers_cases [of cv "finger_detector s" img] find_finger_tips_length [of cv _ "np_shape cv img"]
  by (auto dest: classify_frame_no_fingers classify_frame_fingers)

lemma label3_exI:
  "r = Inr (l, c, d) \<Longrightarrow> l \<in> S \<Longrightarrow> \<exists>l c d. r = Inr (l, c, d) \<and> l \<in> S"
  by blast

lemma classify_3_to_5:
  assumes "3 \<le> length pts" and "length pts \<le> 5"
  shows "fst (classify_by_finger_count (int (length pts)) pts) \<in> {''C'', ''B''}"
proof -
  from assms have "length pts = 3 \<or> length pts = 4 \<or> length pts = 5" by arith
  then show ?thesis by (auto simp: classify_by_finger_count_def)
qed

text \<open>
  Claim C10. Finger detection reports a detection only with 3 to 5 tips. Hence, for every
  frame, the per-frame letter of \<^verbatim>\<open>detect_asl_letter\<close> and the letter of
  \<^verbatim>\<open>detect_letter\<close> is E, C or B. The letters A, D and Unknown, and the rule for a
  finger count of 2, are reached only by calling the rule table directly.
\<close>

theorem image_labels_restricted:
  "(\<forall>pts. detect_fingers cv fd img = (True, Some pts) \<longrightarrow> 3 \<le> length pts \<and> length pts \<le> 5)
   \<and> (\<exists>l c. classify_frame cv s img = Inr (l, c) \<and> l \<in> {''E'', ''C'', ''B''})
   \<and> (\<exists>l c d. detect_letter cv fd img = Inr (l, c, d) \<and> l \<in> {''E'', ''C'', ''B''})
   \<and> classify_by_finger_count 1 [(0.1, 0.5, 0)] = (''A'', 0.7)
   \<and> classify_by_finger_count 1 [(0.9, 0.5, 0)] = (''D'', 0.7)
   \<and> classify_by_finger_count 2 [(0.3, 0.5, 0), (0.6, 0.5, 0)] = (''C'', 0.6)
   \<and> classify_by_finger_count 6 pts6 = (''Unknown'', 0)"
proof -
  have bounds: "3 \<le> length pts \<and> length pts \<le> 5" if "detect_fingers cv fd img = (True, Some pts)" for pts
    using detect_fingers_cases [of cv fd img] that find_finger_tips_length [of cv _ "np_shape cv img"]
    by auto
  have frame: "\<exists>l c. classify_frame cv s img = Inr (l, c) \<and> l \<in> {''E'', ''C'', ''B''}"
  proof -
    from classify_frame_cases [of cv s img]
    consider "classify_frame cv s img = Inr (''E'', 0.7)"
      | pts where "3 \<le> length pts" "length pts \<le> 5"
          "classify_frame cv s img = Inr (classify_by_finger_count (int (length pts)) pts)"
      by blast
    then show ?thesis
    proof cases
      case 1
      then show ?thesis by (intro exI [of _ "''E''"] exI [of _ "0.7 :: real"]) simp
    next
      case (2 pts)
      obtain l c where lc: "classify_by_finger_count (int (length pts)) pts = (l, c)"
        by (cases "classify_by_finger_count (int (length pts)) pts")
      with classify_3_to_5 [OF 2(1,2)] have "l \<in> {''E'', ''C'', ''B''}" by auto
      with 2(3) lc show ?thesis by (intro exI [of _ l] exI [of _ c]) simp
    qed
  qed
  have simple: "\<exists>l c d. detect_letter cv fd img = Inr (l, c, d) \<and> l \<in> {''E'', ''C'', ''B''}"
  proof -
    from detect_fingers_cases [of cv fd img]
    consider "detect_fingers cv fd img = (False, None)"
      | pts where "detect_fingers cv fd img = (True, Some pts)"
      by blast
    then show ?thesis
    proof cases
      case 1
      then have "detect_letter cv fd img = Inr (''E'', 0.8, ''Fist (no fingers)'')"
        by (rule detect_letter_no_fingers)
      then show ?thesis
        by (intro exI [of _ "''E''"] exI [of _ "0.8 :: real"] exI [of _ "''Fist (no fingers)''"]) simp
    next
      case (2 pts)
      from bounds [OF 2] have "length pts = 3 \<or> length pts = 4 \<or> length pts = 5" by arith
      then have "detect_letter_of (True, Some pts) = Inr (''C'', 0.7, ''Curved hand (3 fingers)'')
          \<or> detect_letter_of (True, Some pts) = Inr (''C'', 0.6, ''Curved hand (4 fingers)'')
          \<or> detect_letter_of (True, Some pts) = Inr (''B'', 0.8, ''Open hand (5 fingers)'')"
        by (auto simp: detect_letter_of_def)
      then have "\<exists>l c d. detect_letter_of (True, Some pts) = Inr (l, c, d) \<and> l \<in> {''E'', ''C'', ''B''}"
        by (elim disjE) (erule label3_exI, simp)+
      then show ?thesis by (simp only: detect_letter_def 2)
    qed
  qed
  have direct: "classify_by_finger_count 1 [(0.1, 0.5, 0)] = (''A'', 0.7)"
    "classify_by_finger_count 1 [(0.9, 0.5, 0)] = (''D'', 0.7)"
    "classify_by_finger_count 2 [(0.3, 0.5, 0), (0.6, 0.5, 0)] = (''C'', 0.6)"
    "classify_by_finger_count 6 pts6 = (''Unknown'', 0)"
    by (simp_all add: classify_by_finger_count_def distinguish_a_or_d_def tip_x_def)
  from bounds
  have b: "\<forall>pts. detect_fingers cv fd img = (True, Some pts) \<longrightarrow> 3 \<le> length pts \<and> length pts \<le> 5"
    by blast
  show ?thesis
    by (intro conjI) (rule b frame simple direct)+
qed

theorem image_labels_restricted_witness:
  "detect_fingers open_hand FingerDetector_init () =
     (True, Some [(11 / 32, 25 / 48, 0), (27 / 64, 19 / 48, 0), (1 / 2, 17 / 48, 0),
                  (37 / 64, 19 / 48, 0), (21 / 32, 25 / 48, 0)])
   \<and> 3 \<le> length [(11 / 32, 25 / 48, 0), (27 / 64, 19 / 48, 0), (1 / 2, 17 / 48, 0),
                  (37 / 64, 19 / 48, 0), (21 / 32, 25 / 48, 0) :: tip]
   \<and> length [(11 / 32, 25 / 48, 0), (27 / 64, 19 / 48, 0), (1 / 2, 17 / 48, 0),
                  (37 / 64, 19 / 48, 0), (21 / 32, 25 / 48, 0) :: tip] \<le> 5
   \<and> (\<exists>l c. classify_frame open_hand ASLLetterDetector_init () = Inr (l, c) \<and> l \<in> {''E'', ''C'', ''B''})"
proof -
  note t = image_labels_restricted [of open_hand FingerDetector_init "()" ASLLetterDetector_init "[]"]
  from t have "\<forall>pts. detect_fingers open_hand FingerDetector_init () = (True, Some pts)
      \<longrightarrow> 3 \<le> length pts \<and> length pts \<le> 5"
    by (rule conjunct1)
  then have a: "3 \<le> length [(11 / 32, 25 / 48, 0), (27 / 64, 19 / 48, 0), (1 / 2, 17 / 48, 0),
                  (37 / 64, 19 / 48, 0), (21 / 32, 25 / 48, 0) :: tip]
   \<and> length [(11 / 32, 25 / 48, 0), (27 / 64, 19 / 48, 0), (1 / 2, 17 / 48, 0),
                  (37 / 64, 19 / 48, 0), (21 / 32, 25 / 48, 0) :: tip] \<le> 5"
    using detect_fingers_open_hand by (elim allE impE) assumption+
  from t
  have b: "\<exists>l c. classify_frame open_hand ASLLetterDetector_init () = Inr (l, c) \<and> l \<in> {''E'', ''C'', ''B''}"
    by (rule conjunct2 [THEN conjunct1])
  from detect_fingers_open_hand a b show ?thesis by (intro conjI) simp_all
qed

section \<open>Repeated calls\<close>

lemma classify_frame_only_finger_detector:
  "finger_detector s = finger_detector s' \<Longrightarrow> classify_frame cv s img = classify_frame cv s' img"
  by (simp add: classify_frame_def)

lemma classify_frame_total: "\<exists>d. classify_frame cv s img = Inr d"
  using classify_frame_cases [of cv s img] by blast

lemma push_detection_finger_detector:
  "push_detection s d = Inr (out, s') \<Longrightarrow> finger_detector s' = finger_detector s"
  by (auto simp: push_detection_def Let_def split: sum.splits)

lemma detect_all_push_all:
  assumes "\<forall>img \<in> set imgs. classify_frame cv s0 img = Inr (f img)"
    and "finger_detector s = finger_detector s0"
  shows "detect_all cv s imgs = push_all s (map f imgs)"
  using assms
proof (induction imgs arbitrary: s)
  case Nil
  then show ?case by simp
next
  case (Cons img imgs)
  have "classify_frame cv s img = Inr (f img)"
    using Cons.prems classify_frame_only_finger_detector [of s s0 cv img] by simp
  then have step: "detect_asl_letter cv s img = push_detection s (f img)"
    by (simp add: detect_asl_letter_def)
  show ?case
  proof (cases "push_detection s (f img)")
    case (Inl e)
    then show ?thesis using step by simp
  next
    case (Inr r)
    obtain out s' where r: "r = (out, s')" by (cases r)
    have "finger_detector s' = finger_detector s0"
      using push_detection_finger_detector [of s "f img" out s'] Inr r Cons.prems(2) by simp
    with Cons.IH [of s'] Cons.prems(1) have "detect_all cv s' imgs = push_all s' (map f imgs)"
      by simp
    then show ?thesis using step Inr r by simp
  qed
qed

lemma trailing_replicate:
  assumes "5 \<le> n"
  shows "drop (length (xs @ replicate n x) - 5) (xs @ replicate n x) = [x, x, x, x, x]"
proof -
  have a: "length xs + n - 5 - length xs = n - 5" by arith
  have b: "length xs \<le> length xs + n - 5" using assms by arith
  have c: "n - (n - 5) = 5" using assms by arith
  have "drop (length (xs @ replicate n x) - 5) (xs @ replicate n x) = replicate 5 x"
    by (simp add: a b c)
  then show ?thesis by (simp add: numeral_eq_Suc)
qed

lemma get_stable_detection_only_window:
  assumes "stable_frames s = stable_frames s'" and "detection_history s = detection_history s'"
  shows "get_stable_detection s = get_stable_detection s'"
  unfolding get_stable_detection_def assms ..

lemma detect_asl_letter_only_window:
  assumes "finger_detector s = finger_detector s'" and "stable_frames s = stable_frames s'"
    and "detection_history s = detection_history s'"
  shows "map_sum id fst (detect_asl_letter cv s img) = map_sum id fst (detect_asl_letter cv s' img)"
proof -
  have cf: "classify_frame cv s img = classify_frame cv s' img"
    using assms(1) by (rule classify_frame_only_finger_detector)
  have "get_stable_detection (append_detection s d) = get_stable_detection (append_detection s' d)" for d
    by (rule get_stable_detection_only_window) (simp_all add: assms append_detection_def Let_def)
  then have "map_sum id fst (push_detection s d) = map_sum id fst (push_detection s' d)" for d
    by (simp add: push_detection_def Let_def split: sum.splits)
  then show ?thesis
    by (simp add: detect_asl_letter_def cf split: sum.splits)
qed

lemma detect_fingers_black_frame: "detect_fingers black_frame fd () = (False, None)"
  by (simp add: detect_fingers_def largest_contour_def black_frame_def)

text \<open>
  Claim C9, as stated, says that repeated calls of the full pipeline on the same frame
  return identical results. On a fresh detector and a black frame, the first four calls
  return (None, 0.0) and the fifth returns E with confidence 0.7.
\<close>

theorem repeated_calls_counterexample:
  "detect_all black_frame ASLLetterDetector_init [(), (), (), (), ()] =
     Inr ([(None, 0), (None, 0), (None, 0), (None, 0), (Some ''E'', 0.7)],
          ASLLetterDetector_init\<lparr>detection_history :=
            [(''E'', 0.7), (''E'', 0.7), (''E'', 0.7), (''E'', 0.7), (''E'', 0.7)]\<rparr>)"
  by (simp add: detect_asl_letter_def classify_frame_def detect_fingers_black_frame
      push_detection_def append_detection_def get_stable_detection_def
      ASLLetterDetector_init_def dict_get_def py_max_def Let_def)

text \<open>
  Claim C9, as amended. The per-frame classification of a frame does not depend on the
  detection history. The result of \<^verbatim>\<open>detect_asl_letter\<close> depends on the frame and, of
  the detector, only on its finger detector, its window length and its detection history.
  Repeated calls on one detector may differ while the window fills; from the fifth
  consecutive call with the same frame on, every call returns the per-frame letter and
  confidence of that frame.
\<close>

theorem repeated_frame_settles:
  "(finger_detector s = finger_detector s' \<longrightarrow> classify_frame cv s img = classify_frame cv s' img)
   \<and> (finger_detector s = finger_detector s' \<and> stable_frames s = stable_frames s'
        \<and> detection_history s = detection_history s' \<longrightarrow>
        map_sum id fst (detect_asl_letter cv s img) = map_sum id fst (detect_asl_letter cv s' img))
   \<and> (5 \<le> n \<longrightarrow>
        (\<exists>l c outs s''. classify_frame cv ASLLetterDetector_init img = Inr (l, c)
           \<and> detect_all cv ASLLetterDetector_init (pre @ replicate n img) = Inr (outs, s'')
           \<and> last outs = (Some l, c)))"
proof (intro conjI impI)
  assume "finger_detector s = finger_detector s'"
  then show "classify_frame cv s img = classify_frame cv s' img"
    by (rule classify_frame_only_finger_detector)
next
  assume "finger_detector s = finger_detector s' \<and> stable_frames s = stable_frames s'
        \<and> detection_history s = detection_history s'"
  then show "map_sum id fst (detect_asl_letter cv s img) = map_sum id fst (detect_asl_letter cv s' img)"
    by (elim conjE) (rule detect_asl_letter_only_window)
next
  assume n: "5 \<le> n"
  define f where "f i = projr (classify_frame cv ASLLetterDetector_init i)" for i
  have f: "classify_frame cv ASLLetterDetector_init i = Inr (f i)" for i
    using classify_frame_total [of cv ASLLetterDetector_init i] by (auto simp: f_def)
  obtain l c where lc: "f img = (l, c)" by (cases "f img")
  have run: "detect_all cv ASLLetterDetector_init (pre @ replicate n img)
      = push_all ASLLetterDetector_init (map f pre @ replicate n (l, c))"
    using detect_all_push_all [of "pre @ replicate n img" cv ASLLetterDetector_init f ASLLetterDetector_init]
      f lc by simp
  from n have "map f pre @ replicate n (l, c) \<noteq> []" by auto
  with push_all_window [of ASLLetterDetector_init "map f pre @ replicate n (l, c)"]
  obtain outs s'' where p: "push_all ASLLetterDetector_init (map f pre @ replicate n (l, c)) = Inr (outs, s'')"
    and sf: "stable_frames s'' = 5"
    and w: "detection_history s'' = drop (length (map f pre @ replicate n (l, c)) - 5)
        (map f pre @ replicate n (l, c))"
    and out: "get_stable_detection s'' = Inr (last outs)"
    by auto
  have w5: "detection_history s'' = [(l, c), (l, c), (l, c), (l, c), (l, c)]"
    unfolding w by (rule trailing_replicate [OF n])
  have "get_stable_detection s'' = Inr (Some l, sum_list (map snd (detection_history s'')) / 5)"
    by (rule get_stable_detection_full(1) [OF sf]) (simp_all add: w5)
  with out have "last outs = (Some l, c)" by (simp add: w5)
  with run p f [of img] lc
  show "\<exists>l c outs s''. classify_frame cv ASLLetterDetector_init img = Inr (l, c)
           \<and> detect_all cv ASLLetterDetector_init (pre @ replicate n img) = Inr (outs, s'')
           \<and> last outs = (Some l, c)"
    by (intro exI [of _ l] exI [of _ c] exI [of _ outs] exI [of _ s'']) simp
qed

theorem repeated_frame_settles_witness:
  "classify_frame open_hand ASLLetterDetector_init ()
     = classify_frame open_hand (ASLLetterDetector_init\<lparr>detection_history := [(''E'', 0.7)]\<rparr>) ()
   \<and> map_sum id fst (detect_asl_letter open_hand ASLLetterDetector_init ())
     = map_sum id fst (detect_asl_letter open_hand (ASLLetterDetector_init\<lparr>current_letter := Some ''B''\<rparr>) ())
   \<and> (\<exists>l c outs s''. classify_frame open_hand ASLLetterDetector_init () = Inr (l, c)
           \<and> detect_all open_hand ASLLetterDetector_init ([(), ()] @ replicate 5 ()) = Inr (outs, s'')
           \<and> last outs = (Some l, c))"
proof -
  note t = repeated_frame_settles [of ASLLetterDetector_init
      "ASLLetterDetector_init\<lparr>detection_history := [(''E'', 0.7)]\<rparr>" open_hand "()" 5 "[(), ()]"]
  note u = repeated_frame_settles [of ASLLetterDetector_init
      "ASLLetterDetector_init\<lparr>current_letter := Some ''B''\<rparr>" open_hand "()" 5 "[]"]
  have h1: "finger_detector ASLLetterDetector_init
      = finger_detector (ASLLetterDetector_init\<lparr>detection_history := [(''E'', 0.7)]\<rparr>)"
    by simp
  have h2: "(5 :: nat) \<le> 5" by simp
  have h3: "finger_detector ASLLetterDetector_init
        = finger_detector (ASLLetterDetector_init\<lparr>current_letter := Some ''B''\<rparr>)
      \<and> stable_frames ASLLetterDetector_init
        = stable_frames (ASLLetterDetector_init\<lparr>current_letter := Some ''B''\<rparr>)
      \<and> detection_history ASLLetterDetector_init
        = detection_history (ASLLetterDetector_init\<lparr>current_letter := Some ''B''\<rparr>)"
    by simp
  from t [THEN conjunct1] h1
  have a: "classify_frame open_hand ASLLetterDetector_init ()
     = classify_frame open_hand (ASLLetterDetector_init\<lparr>detection_history := [(''E'', 0.7)]\<rparr>) ()"
    by (rule mp)
  from u [THEN conjunct2, THEN conjunct1] h3
  have b: "map_sum id fst (detect_asl_letter open_hand ASLLetterDetector_init ())
     = map_sum id fst (detect_asl_letter open_hand (ASLLetterDetector_init\<lparr>current_letter := Some ''B''\<rparr>) ())"
    by (rule mp)
  from t [THEN conjunct2, THEN conjunct2] h2
  have c: "\<exists>l c outs s''. classify_frame open_hand ASLLetterDetector_init () = Inr (l, c)
           \<and> detect_all open_hand ASLLetterDetector_init ([(), ()] @ replicate 5 ()) = Inr (outs, s'')
           \<and> last outs = (Some l, c)"
    by (rule mp)
  from a b c show ?thesis by (intro conjI)
qed

end
